theory Spec2Isabelle
  imports Complex_Main
begin

section \<open>Python values and exceptions\<close>

text \<open>
  The values that travel through the integration's dictionaries (config-entry data,
  form input, the vendor's JSON answers): \<open>None\<close>, booleans, integers, floats and
  strings. \<open>truthy\<close> is Python's truth test, as used by \<open>if x\<close>, \<open>x or y\<close> and
  \<open>x and y\<close>.
\<close>

datatype pyval = VNone | VBool bool | VInt int | VFloat real | VStr string

fun truthy :: "pyval \<Rightarrow> bool" where
  "truthy VNone = False"
| "truthy (VBool b) = b"
| "truthy (VInt i) = (i \<noteq> 0)"
| "truthy (VFloat x) = (x \<noteq> 0)"
| "truthy (VStr s) = (s \<noteq> [])"

text \<open>\<open>a or b\<close> on values.\<close>

definition py_or :: "pyval \<Rightarrow> pyval \<Rightarrow> pyval" where
  "py_or a b = (if truthy a then a else b)"

text \<open>\<open>d.get(k, default)\<close> on a dictionary.\<close>

definition dict_get :: "('k \<rightharpoonup> 'v) \<Rightarrow> 'k \<Rightarrow> 'v \<Rightarrow> 'v" where
  "dict_get d k dflt = (case d k of None \<Rightarrow> dflt | Some v \<Rightarrow> v)"

text \<open>
  An exception is an object with the list of classes it is an instance of (its own class
  and all its bases), the text of \<open>str(err)\<close>, and the exception it was raised
  \<open>from\<close>. An \<open>except C\<close> clause catches exactly the instances of \<open>C\<close>, so
  nothing is assumed here about how the vendor client's own exception classes
  (\<open>TadoXApiError\<close>, \<open>TadoXAuthError\<close>) are related.
\<close>

datatype exn_class =
    BaseException | Exception | LookupError | KeyError | TypeError | AttributeError
  | TadoXApiError | TadoXAuthError | ClientError
  | HomeAssistantError | IntegrationError | ConfigEntryAuthFailed | ConfigEntryNotReady
  | CancelledError
  | OtherClass string

datatype exn = Exn (exn_classes: "exn_class list") (exn_msg: string) (exn_cause: "exn option")

definition isinstance :: "exn \<Rightarrow> exn_class \<Rightarrow> bool" where
  "isinstance e c = (c \<in> set (exn_classes e))"

text \<open>\<open>repr\<close> of a string that holds no quote, backslash or control character: the
  string between single quotes.\<close>

definition py_repr :: "string \<Rightarrow> string" where
  "py_repr s = [CHR 0x27] @ s @ [CHR 0x27]"

text \<open>
  The exceptions that the interpreter raises: \<open>KeyError\<close> for a missing string key
  (its text is the \<open>repr\<close> of the key), \<open>AttributeError\<close> for an attribute that
  an object of the given type does not have, \<open>TypeError\<close> for subscripting \<open>None\<close>.
\<close>

definition raise_KeyError :: "string \<Rightarrow> exn" where
  "raise_KeyError k = Exn [KeyError, LookupError, Exception, BaseException] (py_repr k) None"

definition raise_AttributeError :: "string \<Rightarrow> string \<Rightarrow> exn" where
  "raise_AttributeError ty a =
     Exn [AttributeError, Exception, BaseException]
       (py_repr ty @ '' object has no attribute '' @ py_repr a) None"

definition raise_TypeError :: "string \<Rightarrow> exn" where
  "raise_TypeError ty =
     Exn [TypeError, Exception, BaseException]
       (py_repr ty @ '' object is not subscriptable'') None"

text \<open>\<open>raise ConfigEntryAuthFailed(f"Authentication failed: {err}") from err\<close>\<close>

definition raise_ConfigEntryAuthFailed :: "exn \<Rightarrow> exn" where
  "raise_ConfigEntryAuthFailed err =
     Exn [ConfigEntryAuthFailed, IntegrationError, HomeAssistantError, Exception, BaseException]
       (''Authentication failed: '' @ exn_msg err) (Some err)"

text \<open>\<open>raise ConfigEntryNotReady(f"Failed to fetch data: {err}") from err\<close>\<close>

definition raise_ConfigEntryNotReady :: "exn \<Rightarrow> exn" where
  "raise_ConfigEntryNotReady err =
     Exn [ConfigEntryNotReady, IntegrationError, HomeAssistantError, Exception, BaseException]
       (''Failed to fetch data: '' @ exn_msg err) (Some err)"

section \<open>The data model\<close>

text \<open>An instant of time (\<open>datetime\<close>); only its presence matters here.\<close>

datatype datetime = Datetime int

text \<open>
  The vendor API client object \<open>TadoXApi\<close>, with the three attributes the integration
  reads back from it. The HTTP session it is built with is the host's and is left out. The
  class is declared in \<open>api.py\<close>, which is not among the sources at hand: its methods
  are parameters (the record \<open>world\<close> below).
\<close>

record TadoXApi =
  access_token :: pyval
  refresh_token :: pyval
  token_expiry :: "datetime option"

text \<open>
  A device as the coordinator reports it (\<open>TadoXDevice\<close>), with the attributes that
  \<open>number.py\<close> reads. The class, like the coordinator's, is declared in
  \<open>coordinator.py\<close>, which is not among the sources at hand.
\<close>

record TadoXDevice =
  serial_number :: string
  device_type :: string
  room_id :: pyval
  room_name :: pyval
  firmware_version :: pyval
  connection_state :: string
  temperature_offset :: "real option"

text \<open>
  The coordinator's data: \<open>devices\<close> is a dictionary from serial number to device. It is
  kept as an association list, since \<open>devices.values()\<close> is iterated in insertion
  order; \<open>devices.get(serial)\<close> is \<open>map_of\<close>.
\<close>

record TadoXData =
  devices :: "(string \<times> TadoXDevice) list"

text \<open>
  \<open>TadoXDataUpdateCoordinator\<close>: the constructor's arguments (the host handle apart) and
  the host's \<open>data\<close> attribute, which is \<open>None\<close> until a refresh has succeeded.
\<close>

record TadoXDataUpdateCoordinator =
  coord_api :: TadoXApi
  home_id :: pyval
  home_name :: pyval
  scan_interval :: pyval
  geofencing_enabled :: pyval
  min_temp :: pyval
  max_temp :: pyval
  coord_data :: "TadoXData option"

text \<open>A config entry of the host: its id, its unique id (if any) and its stored data.\<close>

record ConfigEntry =
  entry_id :: string
  unique_id :: "string option"
  entry_data :: "string \<rightharpoonup> pyval"

text \<open>What \<open>hass.data[DOMAIN]\<close> holds under a key: the YAML configuration or a coordinator.\<close>

datatype domain_item =
    YamlConfig "string \<rightharpoonup> pyval"
  | Coordinator TadoXDataUpdateCoordinator

record HomeAssistant =
  hass_data :: "string \<rightharpoonup> (string \<rightharpoonup> domain_item)"

text \<open>The offset entity: the serial of its device and its unique id.\<close>

record TadoXTemperatureOffset =
  device_serial :: string
  attr_unique_id :: string

text \<open>
  The constants of \<open>const.py\<close>, which is not part of the sources at hand: they are taken
  as parameters, under their own names.
\<close>

record const =
  CONF_ACCESS_TOKEN :: string
  CONF_HOME_ID :: string
  CONF_HOME_NAME :: string
  CONF_REFRESH_TOKEN :: string
  CONF_SCAN_INTERVAL :: string
  CONF_TOKEN_EXPIRY :: string
  CONF_GEOFENCING_ENABLED :: string
  CONF_MIN_TEMP :: string
  CONF_MAX_TEMP :: string
  MIN_TEMP :: pyval
  MAX_TEMP :: pyval
  DEFAULT_SCAN_INTERVAL :: pyval
  DOMAIN :: string
  PLATFORMS :: "string list"

section \<open>Effects\<close>

text \<open>
  Every function that acts on the outside world returns, next to its result, the list of
  the calls it made, in order: calls to the vendor API client, calls to the host, the
  construction of the coordinator, and error-level log records (with their format
  string). Debug and info logging is not recorded.
\<close>

datatype event =
    Call_start_device_auth
  | Call_poll_for_token pyval int int
  | Call_get_homes
  | Call_refresh_access_token
  | Host_async_update_entry string "string \<rightharpoonup> pyval"
  | Host_async_update_reload_and_abort string "string \<rightharpoonup> pyval"
  | Host_device_get_or_create string string pyval
  | New_coordinator TadoXDataUpdateCoordinator
  | Call_first_refresh
  | Host_forward_entry_setups string "string list"
  | Call_set_device_temperature_offset string real
  | Call_async_request_refresh
  | Log_error string
  | Host_async_add_entities "TadoXTemperatureOffset list"

text \<open>
  The outside world: what each call to the vendor client, to the coordinator's refresh
  machinery, to the host and to the Python library answers. A call either raises or
  returns; calls on the API client also leave the client in a new state.
  \<open>async_current_entries\<close> and \<open>get_reauth_entry\<close> are the host's answers to a
  flow; \<open>fromisoformat\<close> (with \<open>None\<close> for a \<open>ValueError\<close>) and
  \<open>isoformat\<close> are those of \<open>datetime\<close>; \<open>py_str\<close> is the text of a value
  inside an f-string.
\<close>

record world =
  start_device_auth :: "TadoXApi \<Rightarrow> (exn + (string \<rightharpoonup> pyval)) \<times> TadoXApi"
  poll_for_token :: "TadoXApi \<Rightarrow> pyval \<Rightarrow> int \<Rightarrow> int \<Rightarrow> (exn + bool) \<times> TadoXApi"
  get_homes :: "TadoXApi \<Rightarrow> (exn + (string \<rightharpoonup> pyval) list) \<times> TadoXApi"
  refresh_access_token :: "TadoXApi \<Rightarrow> (exn + unit) \<times> TadoXApi"
  set_device_temperature_offset :: "TadoXApi \<Rightarrow> string \<Rightarrow> real \<Rightarrow> (exn + unit) \<times> TadoXApi"
  async_config_entry_first_refresh ::
    "TadoXDataUpdateCoordinator \<Rightarrow> (exn + unit) \<times> TadoXDataUpdateCoordinator"
  async_request_refresh ::
    "TadoXDataUpdateCoordinator \<Rightarrow> (exn + unit) \<times> TadoXDataUpdateCoordinator"
  async_forward_entry_setups :: "ConfigEntry \<Rightarrow> string list \<Rightarrow> exn + unit"
  async_current_entries :: "ConfigEntry list"
  get_reauth_entry :: "exn + ConfigEntry"
  fromisoformat :: "string \<Rightarrow> datetime option"
  isoformat :: "datetime \<Rightarrow> string"
  py_str :: "pyval \<Rightarrow> string"

section \<open>The number platform (number.py)\<close>

text \<open>\<open>TadoXTemperatureOffset.__init__\<close>\<close>

definition new_TadoXTemperatureOffset ::
  "world \<Rightarrow> TadoXDataUpdateCoordinator \<Rightarrow> string \<Rightarrow> TadoXTemperatureOffset" where
  "new_TadoXTemperatureOffset w coordinator serial =
     \<lparr> device_serial = serial,
       attr_unique_id = py_str w (home_id coordinator) @ ''_'' @ serial @ ''_temperature_offset'' \<rparr>"

text \<open>
  The loop of \<open>async_setup_entry\<close> over \<open>coordinator.data.devices.values()\<close>, with the
  list \<open>entities\<close> it appends to.
\<close>

fun offset_entities ::
  "world \<Rightarrow> TadoXDataUpdateCoordinator \<Rightarrow> TadoXDevice list \<Rightarrow> TadoXTemperatureOffset list
     \<Rightarrow> TadoXTemperatureOffset list" where
  "offset_entities w coordinator [] entities = entities"
| "offset_entities w coordinator (device # rest) entities =
     offset_entities w coordinator rest
       (if device_type device \<in> set [''VA04'', ''SU04'']
        then entities @ [new_TadoXTemperatureOffset w coordinator (serial_number device)]
        else entities)"

text \<open>
  \<open>async_setup_entry\<close> of the number platform. \<open>hass.data[DOMAIN][entry.entry_id]\<close>
  raises \<open>KeyError\<close> when a key is missing; reading \<open>.data.devices\<close> raises
  \<open>AttributeError\<close> on an object that has none.
\<close>

definition number_async_setup_entry ::
  "const \<Rightarrow> world \<Rightarrow> HomeAssistant \<Rightarrow> ConfigEntry \<Rightarrow> (exn + unit) \<times> event list" where
  "number_async_setup_entry k w hass entry =
     (case hass_data hass (DOMAIN k) of
        None \<Rightarrow> (Inl (raise_KeyError (DOMAIN k)), [])
      | Some items \<Rightarrow>
          (case items (entry_id entry) of
             None \<Rightarrow> (Inl (raise_KeyError (entry_id entry)), [])
           | Some (YamlConfig y) \<Rightarrow> (Inl (raise_AttributeError ''dict'' ''data''), [])
           | Some (Coordinator coordinator) \<Rightarrow>
               (case coord_data coordinator of
                  None \<Rightarrow> (Inl (raise_AttributeError ''NoneType'' ''devices''), [])
                | Some dat \<Rightarrow>
                    (Inr (),
                     [Host_async_add_entities
                        (offset_entities w coordinator (map snd (devices dat)) [])]))))"

text \<open>The property \<open>_device\<close>: \<open>self.coordinator.data.devices.get(self._device_serial)\<close>.\<close>

definition device_of ::
  "TadoXDataUpdateCoordinator \<Rightarrow> TadoXTemperatureOffset \<Rightarrow> exn + TadoXDevice option" where
  "device_of coordinator self =
     (case coord_data coordinator of
        None \<Rightarrow> Inl (raise_AttributeError ''NoneType'' ''devices'')
      | Some dat \<Rightarrow> Inr (map_of (devices dat) (device_serial self)))"

text \<open>The property \<open>available\<close>.\<close>

definition available ::
  "TadoXDataUpdateCoordinator \<Rightarrow> TadoXTemperatureOffset \<Rightarrow> exn + bool" where
  "available coordinator self =
     (case device_of coordinator self of
        Inl e \<Rightarrow> Inl e
      | Inr None \<Rightarrow> Inr False
      | Inr (Some device) \<Rightarrow> Inr (connection_state device = ''CONNECTED''))"

text \<open>The property \<open>native_value\<close>.\<close>

definition native_value ::
  "TadoXDataUpdateCoordinator \<Rightarrow> TadoXTemperatureOffset \<Rightarrow> exn + real option" where
  "native_value coordinator self =
     (case device_of coordinator self of
        Inl e \<Rightarrow> Inl e
      | Inr None \<Rightarrow> Inr None
      | Inr (Some device) \<Rightarrow> Inr (temperature_offset device))"

text \<open>
  \<open>async_set_native_value\<close>: the body of the \<open>try\<close> first, then the handler
  \<open>except Exception\<close>, which logs and re-raises. An exception that is not an instance of
  \<open>Exception\<close> passes the handler by.
\<close>

definition set_native_value_try ::
  "world \<Rightarrow> TadoXDataUpdateCoordinator \<Rightarrow> TadoXTemperatureOffset \<Rightarrow> real
     \<Rightarrow> (exn + unit) \<times> TadoXDataUpdateCoordinator \<times> event list" where
  "set_native_value_try w coordinator self v =
     (case set_device_temperature_offset w (coord_api coordinator) (device_serial self) v of
        (Inl e, api') \<Rightarrow>
          (Inl e, coordinator\<lparr>coord_api := api'\<rparr>,
           [Call_set_device_temperature_offset (device_serial self) v])
      | (Inr u, api') \<Rightarrow>
          (case async_request_refresh w (coordinator\<lparr>coord_api := api'\<rparr>) of
             (r, coordinator') \<Rightarrow>
               (r, coordinator',
                [Call_set_device_temperature_offset (device_serial self) v,
                 Call_async_request_refresh])))"

definition async_set_native_value ::
  "world \<Rightarrow> TadoXDataUpdateCoordinator \<Rightarrow> TadoXTemperatureOffset \<Rightarrow> real
     \<Rightarrow> (exn + unit) \<times> TadoXDataUpdateCoordinator \<times> event list" where
  "async_set_native_value w coordinator self v =
     (case set_native_value_try w coordinator self v of
        (Inr u, coordinator', evs) \<Rightarrow> (Inr u, coordinator', evs)
      | (Inl err, coordinator', evs) \<Rightarrow>
          if isinstance err Exception
          then (Inl err, coordinator',
                evs @ [Log_error ''Failed to set temperature offset for device %s: %s''])
          else (Inl err, coordinator', evs))"

section \<open>Setting up a config entry (__init__.py)\<close>

text \<open>
  The token expiry stored in the entry, parsed: \<open>fromisoformat\<close> raises
  \<open>ValueError\<close> on a string it cannot read (\<open>None\<close> here) and \<open>TypeError\<close> on
  anything but a string; both are caught and leave \<open>token_expiry = None\<close>.
\<close>

definition parse_token_expiry :: "const \<Rightarrow> world \<Rightarrow> ConfigEntry \<Rightarrow> datetime option" where
  "parse_token_expiry k w entry =
     (case entry_data entry (CONF_TOKEN_EXPIRY k) of
        None \<Rightarrow> None
      | Some v \<Rightarrow>
          if truthy v then (case v of VStr s \<Rightarrow> fromisoformat w s | _ \<Rightarrow> None) else None)"

text \<open>\<open>api.token_expiry.isoformat() if api.token_expiry else None\<close>\<close>

definition expiry_value :: "world \<Rightarrow> TadoXApi \<Rightarrow> pyval" where
  "expiry_value w api =
     (case token_expiry api of None \<Rightarrow> VNone | Some t \<Rightarrow> VStr (isoformat w t))"

text \<open>
  The dictionary \<open>{**data, CONF_ACCESS_TOKEN: api.access_token, CONF_REFRESH_TOKEN:
  api.refresh_token, CONF_TOKEN_EXPIRY: ...}\<close>, which \<open>async_setup_entry\<close> and
  \<open>async_step_reauth_auth\<close> both build: later keys win.
\<close>

definition with_tokens ::
  "const \<Rightarrow> world \<Rightarrow> (string \<rightharpoonup> pyval) \<Rightarrow> TadoXApi \<Rightarrow> (string \<rightharpoonup> pyval)" where
  "with_tokens k w d api =
     d(CONF_ACCESS_TOKEN k \<mapsto> access_token api,
       CONF_REFRESH_TOKEN k \<mapsto> refresh_token api,
       CONF_TOKEN_EXPIRY k \<mapsto> expiry_value w api)"

text \<open>
  The last part of \<open>async_setup_entry\<close>, from the first refresh of the coordinator on:
  a \<open>TadoXApiError\<close> becomes \<open>ConfigEntryNotReady\<close>, any other exception passes; then
  the coordinator is stored and the platforms are forwarded.
\<close>

definition setup_fetch ::
  "const \<Rightarrow> world \<Rightarrow> HomeAssistant \<Rightarrow> ConfigEntry \<Rightarrow> TadoXDataUpdateCoordinator
     \<Rightarrow> (exn + bool) \<times> HomeAssistant \<times> event list" where
  "setup_fetch k w hass entry coordinator =
     (case async_config_entry_first_refresh w coordinator of
        (Inl err, coordinator') \<Rightarrow>
          (if isinstance err TadoXApiError
           then (Inl (raise_ConfigEntryNotReady err), hass, [Call_first_refresh])
           else (Inl err, hass, [Call_first_refresh]))
      | (Inr u, coordinator') \<Rightarrow>
          (let items = dict_get (hass_data hass) (DOMAIN k) Map.empty;
               hass' = hass\<lparr>hass_data :=
                         (hass_data hass)(DOMAIN k \<mapsto>
                            items(entry_id entry \<mapsto> Coordinator coordinator'))\<rparr>;
               evs = [Call_first_refresh,
                      Host_forward_entry_setups (entry_id entry) (PLATFORMS k)]
           in case async_forward_entry_setups w entry (PLATFORMS k) of
                Inl e \<Rightarrow> (Inl e, hass', evs)
              | Inr u' \<Rightarrow> (Inr True, hass', evs)))"

text \<open>
  The middle part: the scan interval (the YAML configuration overrides the stored value),
  the home device in the device registry, and the coordinator.
  \<open>hass.data[DOMAIN]\<close> raises \<open>KeyError\<close> when the domain was never set up, and
  \<open>.get\<close> raises \<open>AttributeError\<close> on a coordinator stored under \<open>"yaml_config"\<close>.
\<close>

definition setup_coordinator ::
  "const \<Rightarrow> world \<Rightarrow> HomeAssistant \<Rightarrow> ConfigEntry \<Rightarrow> TadoXApi \<Rightarrow> pyval \<Rightarrow> pyval
     \<Rightarrow> (exn + bool) \<times> HomeAssistant \<times> event list" where
  "setup_coordinator k w hass entry api hid hname =
     (case hass_data hass (DOMAIN k) of
        None \<Rightarrow> (Inl (raise_KeyError (DOMAIN k)), hass, [])
      | Some items \<Rightarrow>
          (case dict_get items ''yaml_config'' (YamlConfig Map.empty) of
             Coordinator c \<Rightarrow>
               (Inl (raise_AttributeError ''TadoXDataUpdateCoordinator'' ''get''), hass, [])
           | YamlConfig yaml_config \<Rightarrow>
               (let scan = dict_get yaml_config (CONF_SCAN_INTERVAL k)
                             (dict_get (entry_data entry) (CONF_SCAN_INTERVAL k)
                                (DEFAULT_SCAN_INTERVAL k));
                    coordinator =
                      \<lparr> coord_api = api, home_id = hid, home_name = hname,
                        scan_interval = scan,
                        geofencing_enabled =
                          dict_get (entry_data entry) (CONF_GEOFENCING_ENABLED k) (VBool False),
                        min_temp = dict_get (entry_data entry) (CONF_MIN_TEMP k) VNone,
                        max_temp = dict_get (entry_data entry) (CONF_MAX_TEMP k) VNone,
                        coord_data = None \<rparr>
                in case setup_fetch k w hass entry coordinator of
                     (r, hass', evs) \<Rightarrow>
                       (r, hass',
                        [Host_device_get_or_create (entry_id entry) (py_str w hid) hname,
                         New_coordinator coordinator] @ evs))))"

text \<open>
  The client that \<open>async_setup_entry\<close> builds from the stored entry:
  \<open>TadoXApi(session, access_token=entry.data.get(CONF_ACCESS_TOKEN), ...)\<close>.
\<close>

definition entry_api :: "const \<Rightarrow> world \<Rightarrow> ConfigEntry \<Rightarrow> TadoXApi" where
  "entry_api k w entry =
     \<lparr> access_token = dict_get (entry_data entry) (CONF_ACCESS_TOKEN k) VNone,
       refresh_token = dict_get (entry_data entry) (CONF_REFRESH_TOKEN k) VNone,
       token_expiry = parse_token_expiry k w entry \<rparr>"

text \<open>
  \<open>async_setup_entry\<close>. The entry is returned with the data the host's
  \<open>async_update_entry\<close> has given it.
\<close>

definition async_setup_entry ::
  "const \<Rightarrow> world \<Rightarrow> HomeAssistant \<Rightarrow> ConfigEntry
     \<Rightarrow> (exn + bool) \<times> HomeAssistant \<times> ConfigEntry \<times> event list" where
  "async_setup_entry k w hass entry =
     (let api = entry_api k w entry
      in case entry_data entry (CONF_HOME_ID k) of
           None \<Rightarrow> (Inl (raise_KeyError (CONF_HOME_ID k)), hass, entry, [])
         | Some hid \<Rightarrow>
             (let hname = dict_get (entry_data entry) (CONF_HOME_NAME k)
                            (VStr (''Tado Home '' @ py_str w hid))
              in case refresh_access_token w api of
                   (Inl err, api') \<Rightarrow>
                     (if isinstance err TadoXAuthError
                      then (Inl (raise_ConfigEntryAuthFailed err), hass, entry,
                            [Call_refresh_access_token, Log_error ''Authentication failed: %s''])
                      else (Inl err, hass, entry, [Call_refresh_access_token]))
                 | (Inr u, api') \<Rightarrow>
                     (let d = with_tokens k w (entry_data entry) api';
                          entry' = entry\<lparr>entry_data := d\<rparr>
                      in case setup_coordinator k w hass entry' api' hid hname of
                           (r, hass', evs) \<Rightarrow>
                             (r, hass', entry',
                              [Call_refresh_access_token,
                               Host_async_update_entry (entry_id entry) d] @ evs))))"

section \<open>The config flow (config_flow.py)\<close>

text \<open>
  Python's \<open>==\<close> on values: numbers (booleans among them) compare by their numeric
  value across types, everything else by type and content.
\<close>

fun py_num :: "pyval \<Rightarrow> real option" where
  "py_num (VBool b) = Some (if b then 1 else 0)"
| "py_num (VInt i) = Some (real_of_int i)"
| "py_num (VFloat x) = Some x"
| "py_num v = None"

definition py_eq :: "pyval \<Rightarrow> pyval \<Rightarrow> bool" where
  "py_eq a b =
     (case (py_num a, py_num b) of
        (Some x, Some y) \<Rightarrow> x = y
      | (None, None) \<Rightarrow> a = b
      | _ \<Rightarrow> False)"

text \<open>\<open>d[key] = v\<close> on a dictionary kept in insertion order.\<close>

fun py_dict_set :: "pyval \<Rightarrow> pyval \<Rightarrow> (pyval \<times> pyval) list \<Rightarrow> (pyval \<times> pyval) list" where
  "py_dict_set key v [] = [(key, v)]"
| "py_dict_set key v ((key', v') # rest) =
     (if py_eq key' key then (key', v) # rest else (key', v') # py_dict_set key v rest)"

text \<open>
  The data schema of a form (the host validates input against it): empty, the choice among
  the homes, or the options of the configure step with their defaults.
\<close>

datatype schema =
    Schema_empty
  | Schema_select_home "(pyval \<times> pyval) list"
  | Schema_configure pyval pyval pyval

text \<open>
  What a step returns to the host: a form to show (step id, schema, errors, description
  placeholders), an abort with its reason, the request to create an entry (title and
  data), or the answer of \<open>async_update_reload_and_abort\<close> for an entry and its new
  data.
\<close>

datatype ConfigFlowResult =
    ShowForm string schema "(string \<rightharpoonup> string) option" "(string \<rightharpoonup> pyval) option"
  | AbortFlow string
  | CreateEntry pyval "string \<rightharpoonup> pyval"
  | UpdateReloadAndAbort ConfigEntry "string \<rightharpoonup> pyval"

text \<open>
  The flow object. \<open>flow_unique_id\<close> is the host's attribute \<open>unique_id\<close> of a flow,
  which only \<open>async_set_unique_id\<close> assigns. The attribute \<open>_poll_task\<close> is never
  used and is left out.
\<close>

record TadoXConfigFlow =
  flow_api :: "TadoXApi option"
  flow_device_code :: pyval
  flow_user_code :: pyval
  flow_verification_uri :: pyval
  flow_homes :: "(string \<rightharpoonup> pyval) list"
  flow_selected_home :: "(string \<rightharpoonup> pyval) option"
  flow_unique_id :: "string option"

text \<open>\<open>TadoXConfigFlow.__init__\<close>\<close>

definition new_TadoXConfigFlow :: TadoXConfigFlow where
  "new_TadoXConfigFlow =
     \<lparr> flow_api = None, flow_device_code = VNone, flow_user_code = VNone,
       flow_verification_uri = VNone, flow_homes = [], flow_selected_home = None,
       flow_unique_id = None \<rparr>"

text \<open>\<open>TadoXApi(session)\<close>: a client with no tokens yet (the constructor is taken to
  leave the tokens it is not given as \<open>None\<close>).\<close>

definition new_TadoXApi :: TadoXApi where
  "new_TadoXApi = \<lparr> access_token = VNone, refresh_token = VNone, token_expiry = None \<rparr>"

text \<open>How the body of a \<open>try\<close> ends: it returns, it runs to its end (with the
  \<open>errors\<close> dictionary as it stands then), or it raises.\<close>

datatype try_exit =
    Returned ConfigFlowResult
  | Fell_through "string \<rightharpoonup> string"
  | Raised exn

text \<open>The loop \<open>for entry in self._async_current_entries()\<close> of \<open>_create_entry\<close>.\<close>

fun has_unique_id :: "ConfigEntry list \<Rightarrow> string \<Rightarrow> bool" where
  "has_unique_id [] uid = False"
| "has_unique_id (entry # rest) uid =
     (if unique_id entry = Some uid then True else has_unique_id rest uid)"

text \<open>
  \<open>_create_entry\<close>. Subscripting \<open>None\<close> raises \<open>TypeError\<close>, a missing key
  \<open>KeyError\<close>.
\<close>

definition create_entry ::
  "const \<Rightarrow> world \<Rightarrow> TadoXConfigFlow \<Rightarrow> (string \<rightharpoonup> pyval) option
     \<Rightarrow> pyval \<Rightarrow> pyval \<Rightarrow> pyval \<Rightarrow> pyval \<Rightarrow> exn + ConfigFlowResult" where
  "create_entry k w self home scan geofencing mintemp maxtemp =
     (case flow_api self of
        None \<Rightarrow> Inr (AbortFlow ''unknown'')
      | Some api \<Rightarrow>
          (case home of
             None \<Rightarrow> Inl (raise_TypeError ''NoneType'')
           | Some h \<Rightarrow>
               (case h ''id'' of
                  None \<Rightarrow> Inl (raise_KeyError ''id'')
                | Some hid \<Rightarrow>
                    (let await_unique_id = ''tado_x_'' @ py_str w hid
                     in if has_unique_id (async_current_entries w) await_unique_id
                        then Inr (AbortFlow ''already_configured'')
                        else (case h ''name'' of
                                None \<Rightarrow> Inl (raise_KeyError ''name'')
                              | Some hname \<Rightarrow>
                                  Inr (CreateEntry hname
                                    (Map.empty
                                      (CONF_HOME_ID k \<mapsto> hid,
                                       CONF_HOME_NAME k \<mapsto> hname,
                                       CONF_ACCESS_TOKEN k \<mapsto> access_token api,
                                       CONF_REFRESH_TOKEN k \<mapsto> refresh_token api,
                                       CONF_TOKEN_EXPIRY k \<mapsto> expiry_value w api,
                                       CONF_SCAN_INTERVAL k \<mapsto> scan,
                                       CONF_GEOFENCING_ENABLED k \<mapsto> geofencing,
                                       CONF_MIN_TEMP k \<mapsto> mintemp,
                                       CONF_MAX_TEMP k \<mapsto> maxtemp))))))))"

text \<open>\<open>async_step_configure\<close>\<close>

definition async_step_configure ::
  "const \<Rightarrow> world \<Rightarrow> TadoXConfigFlow \<Rightarrow> (string \<rightharpoonup> pyval) option
     \<Rightarrow> exn + ConfigFlowResult" where
  "async_step_configure k w self user_input =
     (case user_input of
        Some ui \<Rightarrow>
          create_entry k w self (flow_selected_home self)
            (dict_get ui (CONF_SCAN_INTERVAL k) (DEFAULT_SCAN_INTERVAL k))
            (dict_get ui (CONF_GEOFENCING_ENABLED k) (VBool False))
            (dict_get ui (CONF_MIN_TEMP k) (MIN_TEMP k))
            (dict_get ui (CONF_MAX_TEMP k) (MAX_TEMP k))
      | None \<Rightarrow>
          Inr (ShowForm ''configure''
                 (Schema_configure (DEFAULT_SCAN_INTERVAL k) (MIN_TEMP k) (MAX_TEMP k))
                 None
                 (Some [''default_interval'' \<mapsto> VStr (py_str w (DEFAULT_SCAN_INTERVAL k))])))"

text \<open>The loop \<open>for home in self._homes\<close> of \<open>async_step_select_home\<close>: the first
  home whose \<open>"id"\<close> equals the chosen one.\<close>

fun find_home :: "(string \<rightharpoonup> pyval) list \<Rightarrow> pyval \<Rightarrow> exn + (string \<rightharpoonup> pyval) option" where
  "find_home [] hid = Inr None"
| "find_home (home # rest) hid =
     (case home ''id'' of
        None \<Rightarrow> Inl (raise_KeyError ''id'')
      | Some i \<Rightarrow> if py_eq i hid then Inr (Some home) else find_home rest hid)"

text \<open>The comprehension \<open>{home["id"]: home["name"] for home in self._homes}\<close>.\<close>

fun home_options ::
  "(string \<rightharpoonup> pyval) list \<Rightarrow> (pyval \<times> pyval) list \<Rightarrow> exn + (pyval \<times> pyval) list" where
  "home_options [] acc = Inr acc"
| "home_options (home # rest) acc =
     (case home ''id'' of
        None \<Rightarrow> Inl (raise_KeyError ''id'')
      | Some i \<Rightarrow>
          (case home ''name'' of
             None \<Rightarrow> Inl (raise_KeyError ''name'')
           | Some n \<Rightarrow> home_options rest (py_dict_set i n acc)))"

definition select_home_form :: "TadoXConfigFlow \<Rightarrow> exn + ConfigFlowResult" where
  "select_home_form self =
     (case home_options (flow_homes self) [] of
        Inl e \<Rightarrow> Inl e
      | Inr opts \<Rightarrow> Inr (ShowForm ''select_home'' (Schema_select_home opts) None None))"

text \<open>\<open>async_step_select_home\<close>\<close>

definition async_step_select_home ::
  "const \<Rightarrow> world \<Rightarrow> TadoXConfigFlow \<Rightarrow> (string \<rightharpoonup> pyval) option
     \<Rightarrow> (exn + ConfigFlowResult) \<times> TadoXConfigFlow" where
  "async_step_select_home k w self user_input =
     (case user_input of
        None \<Rightarrow> (select_home_form self, self)
      | Some ui \<Rightarrow>
          (case ui (CONF_HOME_ID k) of
             None \<Rightarrow> (Inl (raise_KeyError (CONF_HOME_ID k)), self)
           | Some hid \<Rightarrow>
               (case find_home (flow_homes self) hid of
                  Inl e \<Rightarrow> (Inl e, self)
                | Inr (Some home) \<Rightarrow>
                    (let self' = self\<lparr>flow_selected_home := Some home\<rparr>
                     in (async_step_configure k w self' None, self'))
                | Inr None \<Rightarrow> (select_home_form self, self))))"

text \<open>The form of the auth step, with the \<open>errors\<close> collected so far.\<close>

definition auth_form :: "string \<Rightarrow> TadoXConfigFlow \<Rightarrow> (string \<rightharpoonup> string) \<Rightarrow> ConfigFlowResult" where
  "auth_form step self errors =
     ShowForm step Schema_empty (Some errors)
       (Some [''user_code'' \<mapsto> py_or (flow_user_code self) (VStr []),
              ''verification_uri'' \<mapsto> py_or (flow_verification_uri self) (VStr [])])"

text \<open>
  The body of the \<open>try\<close> of \<open>async_step_auth\<close>, entered with the API client
  \<open>self._api\<close>: poll for the token, then ask for the homes and branch on their number.
\<close>

definition auth_try ::
  "const \<Rightarrow> world \<Rightarrow> TadoXConfigFlow \<Rightarrow> TadoXApi \<Rightarrow> try_exit \<times> TadoXConfigFlow \<times> event list" where
  "auth_try k w self api =
     (case poll_for_token w api (flow_device_code self) 3 120 of
        (Inl e, api1) \<Rightarrow>
          (Raised e, self\<lparr>flow_api := Some api1\<rparr>,
           [Call_poll_for_token (flow_device_code self) 3 120])
      | (Inr success, api1) \<Rightarrow>
          if success then
            (case get_homes w api1 of
               (Inl e, api2) \<Rightarrow>
                 (Raised e, self\<lparr>flow_api := Some api2\<rparr>,
                  [Call_poll_for_token (flow_device_code self) 3 120, Call_get_homes])
             | (Inr homes, api2) \<Rightarrow>
                 (let self2 = self\<lparr>flow_api := Some api2, flow_homes := homes\<rparr>;
                      evs = [Call_poll_for_token (flow_device_code self) 3 120, Call_get_homes]
                  in if length homes = 1 then
                       (let self3 = self2\<lparr>flow_selected_home := Some (homes ! 0)\<rparr>
                        in case async_step_configure k w self3 None of
                             Inl e \<Rightarrow> (Raised e, self3, evs)
                           | Inr r \<Rightarrow> (Returned r, self3, evs))
                     else if length homes > 1 then
                       (case async_step_select_home k w self2 None of
                          (Inl e, self3) \<Rightarrow> (Raised e, self3, evs)
                        | (Inr r, self3) \<Rightarrow> (Returned r, self3, evs))
                     else (Fell_through [''base'' \<mapsto> ''no_homes''], self2, evs)))
          else
            (Fell_through [''base'' \<mapsto> ''auth_timeout''], self\<lparr>flow_api := Some api1\<rparr>,
             [Call_poll_for_token (flow_device_code self) 3 120]))"

text \<open>\<open>async_step_auth\<close>: the handler catches \<open>TadoXAuthError\<close> only.\<close>

definition async_step_auth ::
  "const \<Rightarrow> world \<Rightarrow> TadoXConfigFlow \<Rightarrow> (string \<rightharpoonup> pyval) option
     \<Rightarrow> (exn + ConfigFlowResult) \<times> TadoXConfigFlow \<times> event list" where
  "async_step_auth k w self user_input =
     (case user_input of
        None \<Rightarrow> (Inr (auth_form ''auth'' self Map.empty), self, [])
      | Some ui \<Rightarrow>
          (case flow_api self of
             None \<Rightarrow> (Inr (auth_form ''auth'' self Map.empty), self, [])
           | Some api \<Rightarrow>
               if truthy (flow_device_code self) then
                 (case auth_try k w self api of
                    (Returned r, self', evs) \<Rightarrow> (Inr r, self', evs)
                  | (Fell_through errors, self', evs) \<Rightarrow>
                      (Inr (auth_form ''auth'' self' errors), self', evs)
                  | (Raised err, self', evs) \<Rightarrow>
                      if isinstance err TadoXAuthError
                      then (Inr (auth_form ''auth'' self' [''base'' \<mapsto> ''auth_error'']), self',
                            evs @ [Log_error ''Auth error: %s''])
                      else (Inl err, self', evs))
               else (Inr (auth_form ''auth'' self Map.empty), self, [])))"

text \<open>The form of the user step.\<close>

definition user_form :: "(string \<rightharpoonup> string) \<Rightarrow> ConfigFlowResult" where
  "user_form errors =
     ShowForm ''user'' Schema_empty (Some errors)
       (Some [''info'' \<mapsto>
          VStr ''Click 'Submit' to start the authentication process with Tado.''])"

text \<open>
  The body of the \<open>try\<close> of \<open>async_step_user\<close>: start the device authorization, keep
  the device code, the user code and the verification URI, and go on to the auth step.
\<close>

definition user_try ::
  "const \<Rightarrow> world \<Rightarrow> TadoXConfigFlow \<Rightarrow> TadoXApi \<Rightarrow> try_exit \<times> TadoXConfigFlow \<times> event list" where
  "user_try k w self api =
     (case start_device_auth w api of
        (Inl e, api1) \<Rightarrow> (Raised e, self\<lparr>flow_api := Some api1\<rparr>, [Call_start_device_auth])
      | (Inr auth_data, api1) \<Rightarrow>
          (let self1 = self\<lparr>flow_api := Some api1\<rparr>
           in case auth_data ''device_code'' of
                None \<Rightarrow> (Raised (raise_KeyError ''device_code''), self1, [Call_start_device_auth])
              | Some dc \<Rightarrow>
                  (let self2 = self1\<lparr>flow_device_code := dc\<rparr>
                   in case auth_data ''user_code'' of
                        None \<Rightarrow>
                          (Raised (raise_KeyError ''user_code''), self2, [Call_start_device_auth])
                      | Some uc \<Rightarrow>
                          (let self3 = self2\<lparr>flow_user_code := uc,
                                 flow_verification_uri :=
                                   dict_get auth_data ''verification_uri_complete''
                                     (dict_get auth_data ''verification_uri''
                                        (VStr ''https://login.tado.com/oauth2/device''))\<rparr>
                           in case async_step_auth k w self3 None of
                                (Inl e, self4, evs) \<Rightarrow>
                                  (Raised e, self4, Call_start_device_auth # evs)
                              | (Inr r, self4, evs) \<Rightarrow>
                                  (Returned r, self4, Call_start_device_auth # evs)))))"

text \<open>
  \<open>async_step_user\<close>: \<open>TadoXAuthError\<close> is caught first, then
  \<open>aiohttp.ClientError\<close>; anything else passes.
\<close>

definition async_step_user ::
  "const \<Rightarrow> world \<Rightarrow> TadoXConfigFlow \<Rightarrow> (string \<rightharpoonup> pyval) option
     \<Rightarrow> (exn + ConfigFlowResult) \<times> TadoXConfigFlow \<times> event list" where
  "async_step_user k w self user_input =
     (case user_input of
        None \<Rightarrow> (Inr (user_form Map.empty), self, [])
      | Some ui \<Rightarrow>
          (case user_try k w (self\<lparr>flow_api := Some new_TadoXApi\<rparr>) new_TadoXApi of
             (Returned r, self', evs) \<Rightarrow> (Inr r, self', evs)
           | (Fell_through errors, self', evs) \<Rightarrow> (Inr (user_form errors), self', evs)
           | (Raised err, self', evs) \<Rightarrow>
               if isinstance err TadoXAuthError
               then (Inr (user_form [''base'' \<mapsto> ''auth_error'']), self',
                     evs @ [Log_error ''Failed to start device auth: %s''])
               else if isinstance err ClientError
               then (Inr (user_form [''base'' \<mapsto> ''cannot_connect'']), self',
                     evs @ [Log_error ''Network error: %s''])
               else (Inl err, self', evs)))"

text \<open>
  The body of the \<open>try\<close> of \<open>async_step_reauth_auth\<close>: poll for the token and, on
  success, hand the entry under reauthorization to the host with its data and the new
  tokens.
\<close>

definition reauth_auth_try ::
  "const \<Rightarrow> world \<Rightarrow> TadoXConfigFlow \<Rightarrow> TadoXApi \<Rightarrow> try_exit \<times> TadoXConfigFlow \<times> event list" where
  "reauth_auth_try k w self api =
     (case poll_for_token w api (flow_device_code self) 3 120 of
        (Inl e, api1) \<Rightarrow>
          (Raised e, self\<lparr>flow_api := Some api1\<rparr>,
           [Call_poll_for_token (flow_device_code self) 3 120])
      | (Inr success, api1) \<Rightarrow>
          if success then
            (case get_reauth_entry w of
               Inl e \<Rightarrow>
                 (Raised e, self\<lparr>flow_api := Some api1\<rparr>,
                  [Call_poll_for_token (flow_device_code self) 3 120])
             | Inr reauth_entry \<Rightarrow>
                 (let d = with_tokens k w (entry_data reauth_entry) api1
                  in (Returned (UpdateReloadAndAbort reauth_entry d),
                      self\<lparr>flow_api := Some api1\<rparr>,
                      [Call_poll_for_token (flow_device_code self) 3 120,
                       Host_async_update_reload_and_abort (entry_id reauth_entry) d])))
          else
            (Fell_through [''base'' \<mapsto> ''auth_timeout''], self\<lparr>flow_api := Some api1\<rparr>,
             [Call_poll_for_token (flow_device_code self) 3 120]))"

text \<open>\<open>async_step_reauth_auth\<close>\<close>

definition async_step_reauth_auth ::
  "const \<Rightarrow> world \<Rightarrow> TadoXConfigFlow \<Rightarrow> (string \<rightharpoonup> pyval) option
     \<Rightarrow> (exn + ConfigFlowResult) \<times> TadoXConfigFlow \<times> event list" where
  "async_step_reauth_auth k w self user_input =
     (case user_input of
        None \<Rightarrow> (Inr (auth_form ''reauth_auth'' self Map.empty), self, [])
      | Some ui \<Rightarrow>
          (case flow_api self of
             None \<Rightarrow> (Inr (auth_form ''reauth_auth'' self Map.empty), self, [])
           | Some api \<Rightarrow>
               if truthy (flow_device_code self) then
                 (case reauth_auth_try k w self api of
                    (Returned r, self', evs) \<Rightarrow> (Inr r, self', evs)
                  | (Fell_through errors, self', evs) \<Rightarrow>
                      (Inr (auth_form ''reauth_auth'' self' errors), self', evs)
                  | (Raised err, self', evs) \<Rightarrow>
                      if isinstance err TadoXAuthError
                      then (Inr (auth_form ''reauth_auth'' self' [''base'' \<mapsto> ''auth_error'']),
                            self', evs @ [Log_error ''Auth error: %s''])
                      else (Inl err, self', evs))
               else (Inr (auth_form ''reauth_auth'' self Map.empty), self, [])))"

text \<open>
  The body of the \<open>try\<close> of \<open>async_step_reauth_confirm\<close>: as in the user step, but
  the verification URI has no fallback (\<open>None\<close>).
\<close>

definition reauth_confirm_try ::
  "const \<Rightarrow> world \<Rightarrow> TadoXConfigFlow \<Rightarrow> TadoXApi \<Rightarrow> try_exit \<times> TadoXConfigFlow \<times> event list" where
  "reauth_confirm_try k w self api =
     (case start_device_auth w api of
        (Inl e, api1) \<Rightarrow> (Raised e, self\<lparr>flow_api := Some api1\<rparr>, [Call_start_device_auth])
      | (Inr auth_data, api1) \<Rightarrow>
          (let self1 = self\<lparr>flow_api := Some api1\<rparr>
           in case auth_data ''device_code'' of
                None \<Rightarrow> (Raised (raise_KeyError ''device_code''), self1, [Call_start_device_auth])
              | Some dc \<Rightarrow>
                  (let self2 = self1\<lparr>flow_device_code := dc\<rparr>
                   in case auth_data ''user_code'' of
                        None \<Rightarrow>
                          (Raised (raise_KeyError ''user_code''), self2, [Call_start_device_auth])
                      | Some uc \<Rightarrow>
                          (let self3 = self2\<lparr>flow_user_code := uc,
                                 flow_verification_uri :=
                                   dict_get auth_data ''verification_uri_complete''
                                     (dict_get auth_data ''verification_uri'' VNone)\<rparr>
                           in case async_step_reauth_auth k w self3 None of
                                (Inl e, self4, evs) \<Rightarrow>
                                  (Raised e, self4, Call_start_device_auth # evs)
                              | (Inr r, self4, evs) \<Rightarrow>
                                  (Returned r, self4, Call_start_device_auth # evs)))))"

definition reauth_confirm_form :: "(string \<rightharpoonup> string) \<Rightarrow> ConfigFlowResult" where
  "reauth_confirm_form errors = ShowForm ''reauth_confirm'' Schema_empty (Some errors) None"

text \<open>\<open>async_step_reauth_confirm\<close>\<close>

definition async_step_reauth_confirm ::
  "const \<Rightarrow> world \<Rightarrow> TadoXConfigFlow \<Rightarrow> (string \<rightharpoonup> pyval) option
     \<Rightarrow> (exn + ConfigFlowResult) \<times> TadoXConfigFlow \<times> event list" where
  "async_step_reauth_confirm k w self user_input =
     (case user_input of
        None \<Rightarrow> (Inr (reauth_confirm_form Map.empty), self, [])
      | Some ui \<Rightarrow>
          (case reauth_confirm_try k w (self\<lparr>flow_api := Some new_TadoXApi\<rparr>) new_TadoXApi of
             (Returned r, self', evs) \<Rightarrow> (Inr r, self', evs)
           | (Fell_through errors, self', evs) \<Rightarrow> (Inr (reauth_confirm_form errors), self', evs)
           | (Raised err, self', evs) \<Rightarrow>
               if isinstance err TadoXAuthError
               then (Inr (reauth_confirm_form [''base'' \<mapsto> ''auth_error'']), self',
                     evs @ [Log_error ''Failed to start device auth: %s''])
               else (Inl err, self', evs)))"

text \<open>\<open>async_step_reauth\<close>\<close>

definition async_step_reauth ::
  "const \<Rightarrow> world \<Rightarrow> TadoXConfigFlow \<Rightarrow> (string \<rightharpoonup> pyval)
     \<Rightarrow> (exn + ConfigFlowResult) \<times> TadoXConfigFlow \<times> event list" where
  "async_step_reauth k w self entry_data' = async_step_reauth_confirm k w self None"

subsection \<open>Runs of the flow\<close>

text \<open>
  The host drives a flow by calling one step after the other on the same flow object; the
  world may answer differently at each step.
\<close>

datatype step =
    Step_user "(string \<rightharpoonup> pyval) option"
  | Step_auth "(string \<rightharpoonup> pyval) option"
  | Step_select_home "(string \<rightharpoonup> pyval) option"
  | Step_configure "(string \<rightharpoonup> pyval) option"
  | Step_reauth "string \<rightharpoonup> pyval"
  | Step_reauth_confirm "(string \<rightharpoonup> pyval) option"
  | Step_reauth_auth "(string \<rightharpoonup> pyval) option"

fun run_step ::
  "const \<Rightarrow> world \<Rightarrow> TadoXConfigFlow \<Rightarrow> step
     \<Rightarrow> (exn + ConfigFlowResult) \<times> TadoXConfigFlow \<times> event list" where
  "run_step k w self (Step_user ui) = async_step_user k w self ui"
| "run_step k w self (Step_auth ui) = async_step_auth k w self ui"
| "run_step k w self (Step_select_home ui) =
     (case async_step_select_home k w self ui of (r, self') \<Rightarrow> (r, self', []))"
| "run_step k w self (Step_configure ui) = (async_step_configure k w self ui, self, [])"
| "run_step k w self (Step_reauth d) = async_step_reauth k w self d"
| "run_step k w self (Step_reauth_confirm ui) = async_step_reauth_confirm k w self ui"
| "run_step k w self (Step_reauth_auth ui) = async_step_reauth_auth k w self ui"

text \<open>The flow object after a sequence of steps, from a given flow object.\<close>

fun run_steps :: "const \<Rightarrow> TadoXConfigFlow \<Rightarrow> (world \<times> step) list \<Rightarrow> TadoXConfigFlow" where
  "run_steps k self [] = self"
| "run_steps k self ((w, st) # rest) = run_steps k (fst (snd (run_step k w self st))) rest"

text \<open>
  The host's part in creating an entry (not code of the integration): when a step returns
  the request to create an entry, the host makes the new entry from the request's data and
  gives it the unique id of the flow object.
\<close>

definition host_new_entry :: "string \<Rightarrow> TadoXConfigFlow \<Rightarrow> ConfigFlowResult \<Rightarrow> ConfigEntry option" where
  "host_new_entry eid self r =
     (case r of
        CreateEntry title d \<Rightarrow>
          Some \<lparr> entry_id = eid, unique_id = flow_unique_id self, entry_data = d \<rparr>
      | _ \<Rightarrow> None)"

section \<open>Sample values\<close>

text \<open>
  Concrete constants, a concrete world and concrete objects, on which the theorems below
  are instantiated. In the sample world every call succeeds: the device authorization hands
  out codes, polling returns a token, the vendor reports one home, and every refresh goes
  through.
\<close>

definition sample_const :: const where
  "sample_const =
     \<lparr> CONF_ACCESS_TOKEN = ''access_token'', CONF_HOME_ID = ''home_id'',
       CONF_HOME_NAME = ''home_name'', CONF_REFRESH_TOKEN = ''refresh_token'',
       CONF_SCAN_INTERVAL = ''scan_interval'', CONF_TOKEN_EXPIRY = ''token_expiry'',
       CONF_GEOFENCING_ENABLED = ''geofencing_enabled'', CONF_MIN_TEMP = ''min_temp'',
       CONF_MAX_TEMP = ''max_temp'', MIN_TEMP = VFloat 5, MAX_TEMP = VFloat 30,
       DEFAULT_SCAN_INTERVAL = VInt 30, DOMAIN = ''tado_x'',
       PLATFORMS = [''climate'', ''number''] \<rparr>"

definition sample_api :: TadoXApi where
  "sample_api =
     \<lparr> access_token = VStr ''at1'', refresh_token = VStr ''rt1'',
       token_expiry = Some (Datetime 1000) \<rparr>"

definition sample_home :: "string \<rightharpoonup> pyval" where
  "sample_home = [''id'' \<mapsto> VInt 7, ''name'' \<mapsto> VStr ''Home'']"

definition sample_entry :: ConfigEntry where
  "sample_entry =
     \<lparr> entry_id = ''e1'', unique_id = None,
       entry_data = [''home_id'' \<mapsto> VInt 7, ''home_name'' \<mapsto> VStr ''Home'',
                     ''access_token'' \<mapsto> VStr ''at0'', ''scan_interval'' \<mapsto> VInt 60] \<rparr>"

definition sample_world :: world where
  "sample_world =
     \<lparr> start_device_auth =
         (\<lambda>a. (Inr [''device_code'' \<mapsto> VStr ''dc'', ''user_code'' \<mapsto> VStr ''uc'',
                      ''verification_uri'' \<mapsto> VStr ''https://v''], a)),
       poll_for_token = (\<lambda>a dc i t. (Inr True, sample_api)),
       get_homes = (\<lambda>a. (Inr [sample_home], a)),
       refresh_access_token = (\<lambda>a. (Inr (), sample_api)),
       set_device_temperature_offset = (\<lambda>a s v. (Inr (), a)),
       async_config_entry_first_refresh =
         (\<lambda>c. (Inr (), c\<lparr>coord_data := Some \<lparr>devices = []\<rparr>\<rparr>)),
       async_request_refresh = (\<lambda>c. (Inr (), c)),
       async_forward_entry_setups = (\<lambda>e ps. Inr ()),
       async_current_entries = [sample_entry],
       get_reauth_entry = Inr sample_entry,
       fromisoformat = (\<lambda>s. None),
       isoformat = (\<lambda>t. ''2030-01-01T00:00:00''),
       py_str = (\<lambda>v. case v of VStr s \<Rightarrow> s | _ \<Rightarrow> ''7'') \<rparr>"

definition sample_flow :: TadoXConfigFlow where
  "sample_flow =
     new_TadoXConfigFlow\<lparr>flow_api := Some new_TadoXApi, flow_device_code := VStr ''dc''\<rparr>"

definition sample_hass :: HomeAssistant where
  "sample_hass = \<lparr> hass_data = [''tado_x'' \<mapsto> Map.empty] \<rparr>"

definition sample_device :: "string \<Rightarrow> string \<Rightarrow> string \<Rightarrow> TadoXDevice" where
  "sample_device serial ty conn =
     \<lparr> serial_number = serial, device_type = ty, room_id = VInt 1, room_name = VStr ''Room'',
       firmware_version = VStr ''1.0'', connection_state = conn,
       temperature_offset = Some 0 \<rparr>"

definition sample_data :: TadoXData where
  "sample_data =
     \<lparr> devices =
         [(''VA1'', sample_device ''VA1'' ''VA04'' ''CONNECTED''),
          (''TR1'', sample_device ''TR1'' ''TR04'' ''CONNECTED''),
          (''SU1'', sample_device ''SU1'' ''SU04'' ''DISCONNECTED''),
          (''IB1'', sample_device ''IB1'' ''IB02'' ''CONNECTED'')] \<rparr>"

definition sample_coordinator :: TadoXDataUpdateCoordinator where
  "sample_coordinator =
     \<lparr> coord_api = sample_api, home_id = VInt 7, home_name = VStr ''Home'',
       scan_interval = VInt 30, geofencing_enabled = VBool False,
       min_temp = VNone, max_temp = VNone, coord_data = Some sample_data \<rparr>"

definition sample_hass_loaded :: HomeAssistant where
  "sample_hass_loaded =
     \<lparr> hass_data = [''tado_x'' \<mapsto> [''e1'' \<mapsto> Coordinator sample_coordinator]] \<rparr>"

definition sample_entity :: "string \<Rightarrow> TadoXTemperatureOffset" where
  "sample_entity serial = new_TadoXTemperatureOffset sample_world sample_coordinator serial"

text \<open>A cancellation of the running task: an instance of \<open>BaseException\<close>, not of
  \<open>Exception\<close>. And a world in which the vendor call is cancelled.\<close>

definition sample_cancelled :: exn where
  "sample_cancelled = Exn [CancelledError, BaseException] [] None"

definition sample_world_cancelled :: world where
  "sample_world_cancelled =
     sample_world\<lparr>set_device_temperature_offset := (\<lambda>a s v. (Inl sample_cancelled, a))\<rparr>"

text \<open>A vendor error, and a world in which the vendor refuses the offset.\<close>

definition sample_api_error :: exn where
  "sample_api_error = Exn [TadoXApiError, Exception, BaseException] ''HTTP 422'' None"

definition sample_world_refused :: world where
  "sample_world_refused =
     sample_world\<lparr>set_device_temperature_offset := (\<lambda>a s v. (Inl sample_api_error, a))\<rparr>"

text \<open>An authentication error of the vendor client, a world in which the token refresh
  fails with it, and a world in which the first refresh of the coordinator fails with a
  vendor error.\<close>

definition sample_auth_error :: exn where
  "sample_auth_error =
     Exn [TadoXAuthError, TadoXApiError, Exception, BaseException] ''token revoked'' None"

definition sample_world_auth_failed :: world where
  "sample_world_auth_failed =
     sample_world\<lparr>refresh_access_token := (\<lambda>a. (Inl sample_auth_error, a))\<rparr>"

definition sample_world_fetch_failed :: world where
  "sample_world_fetch_failed =
     sample_world\<lparr>async_config_entry_first_refresh := (\<lambda>c. (Inl sample_api_error, c))\<rparr>"

text \<open>The three runs of \<open>async_setup_entry\<close> on the sample entry.\<close>

definition sample_setup :: "(exn + bool) \<times> HomeAssistant \<times> ConfigEntry \<times> event list" where
  "sample_setup = async_setup_entry sample_const sample_world sample_hass sample_entry"

definition sample_setup_auth_failed ::
  "(exn + bool) \<times> HomeAssistant \<times> ConfigEntry \<times> event list" where
  "sample_setup_auth_failed =
     async_setup_entry sample_const sample_world_auth_failed sample_hass sample_entry"

definition sample_setup_fetch_failed ::
  "(exn + bool) \<times> HomeAssistant \<times> ConfigEntry \<times> event list" where
  "sample_setup_fetch_failed =
     async_setup_entry sample_const sample_world_fetch_failed sample_hass sample_entry"

text \<open>The coordinator that \<open>async_setup_entry\<close> builds for the sample entry.\<close>

definition sample_new_coordinator :: TadoXDataUpdateCoordinator where
  "sample_new_coordinator =
     \<lparr> coord_api = sample_api, home_id = VInt 7, home_name = VStr ''Home'',
       scan_interval = VInt 60, geofencing_enabled = VBool False,
       min_temp = VNone, max_temp = VNone, coord_data = None \<rparr>"

text \<open>Worlds for the config flow: polling times out; the vendor reports no home; the
  vendor reports two homes; the device authorization is refused; the network is down; an
  entry with the unique id of the sample home exists.\<close>

definition sample_world_timeout :: world where
  "sample_world_timeout = sample_world\<lparr>poll_for_token := (\<lambda>a dc i t. (Inr False, a))\<rparr>"

definition sample_world_no_homes :: world where
  "sample_world_no_homes = sample_world\<lparr>get_homes := (\<lambda>a. (Inr [], a))\<rparr>"

definition sample_home2 :: "string \<rightharpoonup> pyval" where
  "sample_home2 = [''id'' \<mapsto> VInt 8, ''name'' \<mapsto> VStr ''Cabin'']"

definition sample_world_two_homes :: world where
  "sample_world_two_homes =
     sample_world\<lparr>get_homes := (\<lambda>a. (Inr [sample_home, sample_home2], a))\<rparr>"

definition sample_world_auth_refused :: world where
  "sample_world_auth_refused =
     sample_world\<lparr>start_device_auth := (\<lambda>a. (Inl sample_auth_error, a))\<rparr>"

definition sample_client_error :: exn where
  "sample_client_error = Exn [ClientError, Exception, BaseException] ''no route'' None"

definition sample_world_offline :: world where
  "sample_world_offline =
     sample_world\<lparr>start_device_auth := (\<lambda>a. (Inl sample_client_error, a))\<rparr>"

definition sample_world_claimed :: world where
  "sample_world_claimed =
     sample_world\<lparr>async_current_entries :=
       [sample_entry, sample_entry\<lparr>entry_id := ''e2'', unique_id := Some ''tado_x_7''\<rparr>]\<rparr>"

section \<open>Properties of the number platform\<close>

lemma offset_entities_filter:
  "offset_entities w c ds acc =
     acc @ map (\<lambda>d. new_TadoXTemperatureOffset w c (serial_number d))
            (filter (\<lambda>d. device_type d = ''VA04'' \<or> device_type d = ''SU04'') ds)"
  by (induction ds arbitrary: acc) simp_all

text \<open>
  C9. When the coordinator of the entry is stored and has data, the number platform hands
  the host exactly one offset entity for each device of its data whose \<open>device_type\<close> is
  \<open>"VA04"\<close> or \<open>"SU04"\<close>, in the order of the devices and under the device's serial
  number, and none for a device of any other type (\<open>"TR04"\<close> and \<open>"IB02"\<close> among them).
\<close>

theorem offset_entities_exactly_VA04_SU04:
  "hass_data hass (DOMAIN k) = Some items \<and> items (entry_id entry) = Some (Coordinator c) \<and>
   coord_data c = Some dat \<longrightarrow>
     number_async_setup_entry k w hass entry =
       (Inr (),
        [Host_async_add_entities
           (map (\<lambda>d. new_TadoXTemperatureOffset w c (serial_number d))
              (filter (\<lambda>d. device_type d = ''VA04'' \<or> device_type d = ''SU04'')
                 (map snd (devices dat))))])"
  by (simp add: number_async_setup_entry_def offset_entities_filter)

text \<open>
  On the sample coordinator, with a valve, a thermostat, a sensor and a bridge: the valve
  and the sensor get an entity, the thermostat and the bridge do not.
\<close>

theorem offset_entities_exactly_VA04_SU04_witness:
  "number_async_setup_entry sample_const sample_world sample_hass_loaded sample_entry =
     (Inr (), [Host_async_add_entities [sample_entity ''VA1'', sample_entity ''SU1'']])"
  using offset_entities_exactly_VA04_SU04
    [of sample_hass_loaded sample_const "[''e1'' \<mapsto> Coordinator sample_coordinator]"
        sample_entry sample_coordinator sample_data sample_world]
  by (simp add: sample_hass_loaded_def sample_const_def sample_entry_def sample_coordinator_def
        sample_data_def sample_device_def sample_entity_def)

text \<open>
  C10. For a coordinator that has data: when the entity's serial is not among the devices,
  \<open>available\<close> returns \<open>False\<close> and \<open>native_value\<close> returns \<open>None\<close>, and neither
  raises; when the device is there, \<open>available\<close> returns whether its
  \<open>connection_state\<close> equals \<open>"CONNECTED"\<close>.
\<close>

theorem offset_entity_total:
  "coord_data c = Some dat \<longrightarrow>
   (map_of (devices dat) (device_serial self) = None \<longrightarrow>
       available c self = Inr False \<and> native_value c self = Inr None) \<and>
   (\<forall>d. map_of (devices dat) (device_serial self) = Some d \<longrightarrow>
       available c self = Inr (connection_state d = ''CONNECTED''))"
  by (simp add: available_def native_value_def device_of_def)

text \<open>An unknown serial, a connected valve and a disconnected sensor.\<close>

theorem offset_entity_total_witness:
  "available sample_coordinator (sample_entity ''ZZ9'') = Inr False \<and>
   native_value sample_coordinator (sample_entity ''ZZ9'') = Inr None \<and>
   available sample_coordinator (sample_entity ''VA1'') = Inr True \<and>
   available sample_coordinator (sample_entity ''SU1'') = Inr False"
  using offset_entity_total [of sample_coordinator sample_data "sample_entity ''ZZ9''"]
     offset_entity_total [of sample_coordinator sample_data "sample_entity ''VA1''"]
     offset_entity_total [of sample_coordinator sample_data "sample_entity ''SU1''"]
  by (simp add: sample_coordinator_def sample_data_def sample_device_def sample_entity_def
        new_TadoXTemperatureOffset_def)

text \<open>
  C7 (as amended). \<open>async_set_native_value\<close> first sends the value to the vendor API for
  the entity's serial and, when that call returns, requests a coordinator refresh next.
  When the vendor call raises, the same exception leaves \<open>async_set_native_value\<close> and
  no refresh is requested; the exception is logged when it is an instance of
  \<open>Exception\<close>, and it is not logged otherwise.
\<close>

theorem set_offset_then_refresh:
  "(\<forall>u api'. set_device_temperature_offset w (coord_api c) (device_serial self) v = (Inr u, api') \<longrightarrow>
      (\<exists>rest. snd (snd (async_set_native_value w c self v)) =
         [Call_set_device_temperature_offset (device_serial self) v, Call_async_request_refresh] @ rest)) \<and>
   (\<forall>err api'. set_device_temperature_offset w (coord_api c) (device_serial self) v = (Inl err, api') \<longrightarrow>
      fst (async_set_native_value w c self v) = Inl err \<and>
      Call_async_request_refresh \<notin> set (snd (snd (async_set_native_value w c self v))) \<and>
      snd (snd (async_set_native_value w c self v)) =
        (if isinstance err Exception
         then [Call_set_device_temperature_offset (device_serial self) v,
               Log_error ''Failed to set temperature offset for device %s: %s'']
         else [Call_set_device_temperature_offset (device_serial self) v]))"
  by (auto simp: async_set_native_value_def set_native_value_try_def split: prod.splits sum.splits)

text \<open>In the sample world the call goes through; in the other the vendor refuses it.\<close>

theorem set_offset_then_refresh_witness:
  "snd (snd (async_set_native_value sample_world sample_coordinator (sample_entity ''VA1'') 1)) =
     [Call_set_device_temperature_offset ''VA1'' 1, Call_async_request_refresh] \<and>
   async_set_native_value sample_world_refused sample_coordinator (sample_entity ''VA1'') 1 =
     (Inl sample_api_error, sample_coordinator,
      [Call_set_device_temperature_offset ''VA1'' 1,
       Log_error ''Failed to set temperature offset for device %s: %s''])"
  using set_offset_then_refresh [of sample_world sample_coordinator "sample_entity ''VA1''" 1]
    set_offset_then_refresh [of sample_world_refused sample_coordinator "sample_entity ''VA1''" 1]
  by (simp add: sample_world_def sample_world_refused_def sample_coordinator_def sample_entity_def
        new_TadoXTemperatureOffset_def sample_api_error_def isinstance_def
        async_set_native_value_def set_native_value_try_def)

text \<open>
  C7 as stated fails when the task is cancelled while the vendor call is awaited: the call
  raises \<open>CancelledError\<close>, which \<open>except Exception\<close> does not catch, so nothing is
  logged.
\<close>

theorem set_offset_cancelled_counterexample:
  "set_device_temperature_offset sample_world_cancelled (coord_api sample_coordinator)
      (device_serial (sample_entity ''VA1'')) 1 = (Inl sample_cancelled, sample_api) \<and>
   async_set_native_value sample_world_cancelled sample_coordinator (sample_entity ''VA1'') 1 =
     (Inl sample_cancelled, sample_coordinator, [Call_set_device_temperature_offset ''VA1'' 1]) \<and>
   Log_error ''Failed to set temperature offset for device %s: %s'' \<notin>
     set (snd (snd (async_set_native_value sample_world_cancelled sample_coordinator
                      (sample_entity ''VA1'') 1)))"
  by (simp add: sample_world_def sample_world_cancelled_def sample_coordinator_def sample_entity_def
        new_TadoXTemperatureOffset_def sample_cancelled_def isinstance_def
        async_set_native_value_def set_native_value_try_def)

section \<open>Properties of the setup of a config entry\<close>

text \<open>The three parts of \<open>async_setup_entry\<close>, each by the ways it can end.\<close>

lemma setup_fetch_cases:
  "setup_fetch k w hass entry c = (r, hass', evs) \<Longrightarrow>
   (case async_config_entry_first_refresh w c of
      (Inl err, c') \<Rightarrow> hass' = hass \<and> evs = [Call_first_refresh] \<and>
          r = Inl (if isinstance err TadoXApiError then raise_ConfigEntryNotReady err else err)
    | (Inr u, c') \<Rightarrow>
        evs = [Call_first_refresh, Host_forward_entry_setups (entry_id entry) (PLATFORMS k)] \<and>
        hass_data hass' (DOMAIN k) =
          Some ((dict_get (hass_data hass) (DOMAIN k) Map.empty)(entry_id entry \<mapsto> Coordinator c')) \<and>
        (r = Inr True \<longleftrightarrow> async_forward_entry_setups w entry (PLATFORMS k) = Inr ()) \<and>
        (r \<noteq> Inr True \<longrightarrow> (\<exists>e. r = Inl e)))"
  by (auto simp: setup_fetch_def Let_def split: prod.splits sum.splits if_splits)

lemma setup_coordinator_cases:
  "setup_coordinator k w hass entry api hid hname = (r, hass', evs) \<Longrightarrow>
   (evs = [] \<and> hass' = hass \<and> (\<exists>e. r = Inl e)) \<or>
   (\<exists>c evs2. evs = [Host_device_get_or_create (entry_id entry) (py_str w hid) hname,
                      New_coordinator c] @ evs2 \<and>
       setup_fetch k w hass entry c = (r, hass', evs2))"
  by (auto simp: setup_coordinator_def Let_def split: option.splits domain_item.splits prod.splits)

lemma async_setup_entry_cases:
  "async_setup_entry k w hass entry = (r, hass', entry', evs) \<Longrightarrow>
   (entry_data entry (CONF_HOME_ID k) = None \<and> evs = [] \<and> hass' = hass \<and> entry' = entry \<and>
      r = Inl (raise_KeyError (CONF_HOME_ID k))) \<or>
   (\<exists>hid err api'. entry_data entry (CONF_HOME_ID k) = Some hid \<and>
      refresh_access_token w (entry_api k w entry) = (Inl err, api') \<and> hass' = hass \<and> entry' = entry \<and>
      (if isinstance err TadoXAuthError
       then r = Inl (raise_ConfigEntryAuthFailed err) \<and>
            evs = [Call_refresh_access_token, Log_error ''Authentication failed: %s'']
       else r = Inl err \<and> evs = [Call_refresh_access_token])) \<or>
   (\<exists>hid u api' evs2. entry_data entry (CONF_HOME_ID k) = Some hid \<and>
      refresh_access_token w (entry_api k w entry) = (Inr u, api') \<and>
      entry' = entry\<lparr>entry_data := with_tokens k w (entry_data entry) api'\<rparr> \<and>
      evs = [Call_refresh_access_token,
             Host_async_update_entry (entry_id entry) (with_tokens k w (entry_data entry) api')] @ evs2 \<and>
      setup_coordinator k w hass entry' api' hid
        (dict_get (entry_data entry) (CONF_HOME_NAME k) (VStr (''Tado Home '' @ py_str w hid)))
        = (r, hass', evs2))"
  by (auto simp: async_setup_entry_def Let_def split: option.splits prod.splits sum.splits if_splits)

text \<open>What the two exceptions that \<open>async_setup_entry\<close> raises itself are made of.\<close>

lemma ConfigEntryAuthFailed_made:
  "isinstance (raise_ConfigEntryAuthFailed err) ConfigEntryAuthFailed \<and>
   exn_cause (raise_ConfigEntryAuthFailed err) = Some err \<and>
   exn_msg (raise_ConfigEntryAuthFailed err) = ''Authentication failed: '' @ exn_msg err"
  by (simp add: raise_ConfigEntryAuthFailed_def isinstance_def)

lemma ConfigEntryNotReady_made:
  "isinstance (raise_ConfigEntryNotReady err) ConfigEntryNotReady \<and>
   exn_cause (raise_ConfigEntryNotReady err) = Some err \<and>
   exn_msg (raise_ConfigEntryNotReady err) = ''Failed to fetch data: '' @ exn_msg err"
  by (simp add: raise_ConfigEntryNotReady_def isinstance_def)

text \<open>The sample runs, evaluated.\<close>

lemma sample_setup_eval:
  "sample_setup =
     (Inr True,
      \<lparr> hass_data = [''tado_x'' \<mapsto>
           [''e1'' \<mapsto> Coordinator (sample_new_coordinator\<lparr>coord_data := Some \<lparr>devices = []\<rparr>\<rparr>)]] \<rparr>,
      sample_entry\<lparr>entry_data := with_tokens sample_const sample_world (entry_data sample_entry) sample_api\<rparr>,
      [Call_refresh_access_token,
       Host_async_update_entry ''e1'' (with_tokens sample_const sample_world (entry_data sample_entry) sample_api),
       Host_device_get_or_create ''e1'' ''7'' (VStr ''Home''),
       New_coordinator sample_new_coordinator,
       Call_first_refresh,
       Host_forward_entry_setups ''e1'' [''climate'', ''number'']])"
  by (simp add: Let_def sample_setup_def async_setup_entry_def setup_coordinator_def setup_fetch_def
        entry_api_def parse_token_expiry_def dict_get_def with_tokens_def expiry_value_def
        sample_const_def sample_world_def sample_hass_def sample_entry_def sample_api_def
        sample_new_coordinator_def)

lemma sample_setup_auth_failed_eval:
  "sample_setup_auth_failed =
     (Inl (raise_ConfigEntryAuthFailed sample_auth_error), sample_hass, sample_entry,
      [Call_refresh_access_token, Log_error ''Authentication failed: %s''])"
  by (simp add: Let_def sample_setup_auth_failed_def async_setup_entry_def 
        entry_api_def parse_token_expiry_def dict_get_def isinstance_def sample_auth_error_def
        sample_const_def sample_world_def sample_world_auth_failed_def sample_entry_def)

lemma sample_setup_fetch_failed_eval:
  "fst sample_setup_fetch_failed = Inl (raise_ConfigEntryNotReady sample_api_error) \<and>
   fst (snd sample_setup_fetch_failed) = sample_hass \<and>
   snd (snd (snd sample_setup_fetch_failed)) =
     [Call_refresh_access_token,
       Host_async_update_entry ''e1'' (with_tokens sample_const sample_world (entry_data sample_entry) sample_api),
       Host_device_get_or_create ''e1'' ''7'' (VStr ''Home''),
       New_coordinator sample_new_coordinator,
       Call_first_refresh]"
  by (simp add: Let_def sample_setup_fetch_failed_def async_setup_entry_def setup_coordinator_def setup_fetch_def
        entry_api_def parse_token_expiry_def dict_get_def with_tokens_def expiry_value_def
        isinstance_def sample_api_error_def
        sample_const_def sample_world_def sample_world_fetch_failed_def sample_hass_def sample_entry_def sample_api_def
        sample_new_coordinator_def)

text \<open>
  C2. In every run of \<open>async_setup_entry\<close>: for an entry that has its home id, the
  token refresh is the first call made; whenever a coordinator is created, the refresh was
  made before it; and whenever the refresh raises an instance of \<open>TadoXAuthError\<close>, the
  setup raises an instance of \<open>ConfigEntryAuthFailed\<close>, raised from that error and
  with the text \<open>Authentication failed:\<close> and the error's, the host state \<open>hass.data\<close>
  and the entry are as before, and the only calls made are the refresh and the error log:
  no coordinator is created, none is stored, and no platform is forwarded.
\<close>

theorem setup_refresh_before_coordinator:
  "async_setup_entry k w hass entry = (r, hass', entry', evs) \<longrightarrow>
   (\<forall>hid. entry_data entry (CONF_HOME_ID k) = Some hid \<longrightarrow>
       (\<exists>rest. evs = Call_refresh_access_token # rest)) \<and>
   (\<forall>c. New_coordinator c \<in> set evs \<longrightarrow>
       (\<exists>rest. evs = Call_refresh_access_token # rest \<and> New_coordinator c \<in> set rest)) \<and>
   (\<forall>hid err api'. entry_data entry (CONF_HOME_ID k) = Some hid \<and>
       refresh_access_token w (entry_api k w entry) = (Inl err, api') \<and>
       isinstance err TadoXAuthError \<longrightarrow>
         (\<exists>e. r = Inl e \<and> isinstance e ConfigEntryAuthFailed \<and> exn_cause e = Some err \<and>
              exn_msg e = ''Authentication failed: '' @ exn_msg err) \<and>
         hass' = hass \<and> entry' = entry \<and>
         evs = [Call_refresh_access_token, Log_error ''Authentication failed: %s''])"
proof
  assume run: "async_setup_entry k w hass entry = (r, hass', entry', evs)"
  from async_setup_entry_cases [OF run]
  show "(\<forall>hid. entry_data entry (CONF_HOME_ID k) = Some hid \<longrightarrow>
       (\<exists>rest. evs = Call_refresh_access_token # rest)) \<and>
   (\<forall>c. New_coordinator c \<in> set evs \<longrightarrow>
       (\<exists>rest. evs = Call_refresh_access_token # rest \<and> New_coordinator c \<in> set rest)) \<and>
   (\<forall>hid err api'. entry_data entry (CONF_HOME_ID k) = Some hid \<and>
       refresh_access_token w (entry_api k w entry) = (Inl err, api') \<and>
       isinstance err TadoXAuthError \<longrightarrow>
         (\<exists>e. r = Inl e \<and> isinstance e ConfigEntryAuthFailed \<and> exn_cause e = Some err \<and>
              exn_msg e = ''Authentication failed: '' @ exn_msg err) \<and>
         hass' = hass \<and> entry' = entry \<and>
         evs = [Call_refresh_access_token, Log_error ''Authentication failed: %s''])"
    by (auto simp: ConfigEntryAuthFailed_made split: if_splits)
qed

text \<open>The sample entry, in the world where the refresh fails and in the sample world.\<close>

theorem setup_refresh_before_coordinator_witness:
  "entry_data sample_entry (CONF_HOME_ID sample_const) = Some (VInt 7) \<and>
   refresh_access_token sample_world_auth_failed
      (entry_api sample_const sample_world_auth_failed sample_entry) =
     (Inl sample_auth_error, entry_api sample_const sample_world_auth_failed sample_entry) \<and>
   isinstance sample_auth_error TadoXAuthError \<and>
   (\<exists>e. fst sample_setup_auth_failed = Inl e \<and> isinstance e ConfigEntryAuthFailed \<and>
        exn_cause e = Some sample_auth_error \<and>
        exn_msg e = ''Authentication failed: token revoked'') \<and>
   fst (snd sample_setup_auth_failed) = sample_hass \<and>
   snd (snd (snd sample_setup_auth_failed)) =
     [Call_refresh_access_token, Log_error ''Authentication failed: %s''] \<and>
   New_coordinator sample_new_coordinator \<in> set (snd (snd (snd sample_setup))) \<and>
   (\<exists>rest. snd (snd (snd sample_setup)) = Call_refresh_access_token # rest \<and>
           New_coordinator sample_new_coordinator \<in> set rest)"
proof -
  have hid: "entry_data sample_entry (CONF_HOME_ID sample_const) = Some (VInt 7)"
    by (simp add: sample_entry_def sample_const_def)
  have rf: "refresh_access_token sample_world_auth_failed
      (entry_api sample_const sample_world_auth_failed sample_entry) =
     (Inl sample_auth_error, entry_api sample_const sample_world_auth_failed sample_entry)"
    by (simp add: sample_world_auth_failed_def sample_world_def)
  have inst: "isinstance sample_auth_error TadoXAuthError"
    by (simp add: isinstance_def sample_auth_error_def)
  have run1: "async_setup_entry sample_const sample_world_auth_failed sample_hass sample_entry =
      (fst sample_setup_auth_failed, fst (snd sample_setup_auth_failed),
       fst (snd (snd sample_setup_auth_failed)), snd (snd (snd sample_setup_auth_failed)))"
    by (simp add: sample_setup_auth_failed_def)
  have run2: "async_setup_entry sample_const sample_world sample_hass sample_entry =
      (fst sample_setup, fst (snd sample_setup),
       fst (snd (snd sample_setup)), snd (snd (snd sample_setup)))"
    by (simp add: sample_setup_def)
  have made: "New_coordinator sample_new_coordinator \<in> set (snd (snd (snd sample_setup)))"
    by (simp add: sample_setup_eval)
  from setup_refresh_before_coordinator [THEN mp, OF run1] hid rf inst
  have "(\<exists>e. fst sample_setup_auth_failed = Inl e \<and> isinstance e ConfigEntryAuthFailed \<and>
        exn_cause e = Some sample_auth_error \<and>
        exn_msg e = ''Authentication failed: '' @ exn_msg sample_auth_error) \<and>
      fst (snd sample_setup_auth_failed) = sample_hass \<and>
      snd (snd (snd sample_setup_auth_failed)) =
        [Call_refresh_access_token, Log_error ''Authentication failed: %s'']"
    by blast
  then have failed: "(\<exists>e. fst sample_setup_auth_failed = Inl e \<and>
        isinstance e ConfigEntryAuthFailed \<and> exn_cause e = Some sample_auth_error \<and>
        exn_msg e = ''Authentication failed: token revoked'') \<and>
      fst (snd sample_setup_auth_failed) = sample_hass \<and>
      snd (snd (snd sample_setup_auth_failed)) =
        [Call_refresh_access_token, Log_error ''Authentication failed: %s'']"
    by (simp add: sample_auth_error_def)
  from setup_refresh_before_coordinator [THEN mp, OF run2] made
  have first: "\<exists>rest. snd (snd (snd sample_setup)) = Call_refresh_access_token # rest \<and>
           New_coordinator sample_new_coordinator \<in> set rest"
    by blast
  from hid rf inst failed made first show ?thesis by blast
qed

text \<open>
  C5. When \<open>async_setup_entry\<close> returns \<open>True\<close>, its last three calls were the
  creation of the coordinator, that coordinator's first refresh, which returned, and the
  forwarding of the platforms, which returned; and the refreshed coordinator is stored in
  \<open>hass.data[DOMAIN]\<close> under the entry's id. When the first refresh of the coordinator
  raises an instance of \<open>TadoXApiError\<close>, the setup raises an instance of
  \<open>ConfigEntryNotReady\<close>, raised from that error and with the text
  \<open>Failed to fetch data:\<close> and the error's, \<open>hass.data\<close> is as before, and no
  platform is forwarded.
\<close>

theorem setup_true_after_first_refresh:
  "async_setup_entry k w hass entry = (r, hass', entry', evs) \<longrightarrow>
   (r = Inr True \<longrightarrow>
      (\<exists>pre c c' items.
          evs = pre @ [New_coordinator c, Call_first_refresh,
                       Host_forward_entry_setups (entry_id entry) (PLATFORMS k)] \<and>
          async_config_entry_first_refresh w c = (Inr (), c') \<and>
          async_forward_entry_setups w entry' (PLATFORMS k) = Inr () \<and>
          hass_data hass' (DOMAIN k) = Some items \<and>
          items (entry_id entry) = Some (Coordinator c'))) \<and>
   (\<forall>c err c'. New_coordinator c \<in> set evs \<and>
        async_config_entry_first_refresh w c = (Inl err, c') \<and> isinstance err TadoXApiError \<longrightarrow>
          (\<exists>e. r = Inl e \<and> isinstance e ConfigEntryNotReady \<and> exn_cause e = Some err \<and>
               exn_msg e = ''Failed to fetch data: '' @ exn_msg err) \<and>
          hass' = hass \<and> (\<forall>eid ps. Host_forward_entry_setups eid ps \<notin> set evs))"
proof
  assume run: "async_setup_entry k w hass entry = (r, hass', entry', evs)"
  show "(r = Inr True \<longrightarrow>
      (\<exists>pre c c' items.
          evs = pre @ [New_coordinator c, Call_first_refresh,
                       Host_forward_entry_setups (entry_id entry) (PLATFORMS k)] \<and>
          async_config_entry_first_refresh w c = (Inr (), c') \<and>
          async_forward_entry_setups w entry' (PLATFORMS k) = Inr () \<and>
          hass_data hass' (DOMAIN k) = Some items \<and>
          items (entry_id entry) = Some (Coordinator c'))) \<and>
   (\<forall>c err c'. New_coordinator c \<in> set evs \<and>
        async_config_entry_first_refresh w c = (Inl err, c') \<and> isinstance err TadoXApiError \<longrightarrow>
          (\<exists>e. r = Inl e \<and> isinstance e ConfigEntryNotReady \<and> exn_cause e = Some err \<and>
               exn_msg e = ''Failed to fetch data: '' @ exn_msg err) \<and>
          hass' = hass \<and> (\<forall>eid ps. Host_forward_entry_setups eid ps \<notin> set evs))"
  proof (intro conjI impI allI)
    assume ok: "r = Inr True"
    from async_setup_entry_cases [OF run] ok obtain hid u api' evs2 where
      e': "entry' = entry\<lparr>entry_data := with_tokens k w (entry_data entry) api'\<rparr>"
      and evs: "evs = [Call_refresh_access_token,
             Host_async_update_entry (entry_id entry) (with_tokens k w (entry_data entry) api')] @ evs2"
      and sc: "setup_coordinator k w hass entry' api' hid
        (dict_get (entry_data entry) (CONF_HOME_NAME k) (VStr (''Tado Home '' @ py_str w hid)))
        = (r, hass', evs2)"
      by (auto split: if_splits)
    from setup_coordinator_cases [OF sc] ok obtain c evs3 where
      evs2: "evs2 = [Host_device_get_or_create (entry_id entry') (py_str w hid)
                (dict_get (entry_data entry) (CONF_HOME_NAME k) (VStr (''Tado Home '' @ py_str w hid))),
                      New_coordinator c] @ evs3"
      and sf: "setup_fetch k w hass entry' c = (r, hass', evs3)"
      by auto
    from setup_fetch_cases [OF sf] ok obtain c' where
      fr: "async_config_entry_first_refresh w c = (Inr (), c')"
      and evs3: "evs3 = [Call_first_refresh, Host_forward_entry_setups (entry_id entry') (PLATFORMS k)]"
      and hd: "hass_data hass' (DOMAIN k) =
          Some ((dict_get (hass_data hass) (DOMAIN k) Map.empty)(entry_id entry' \<mapsto> Coordinator c'))"
      and fw: "async_forward_entry_setups w entry' (PLATFORMS k) = Inr ()"
      by (auto split: prod.splits sum.splits)
    have eid: "entry_id entry' = entry_id entry" by (simp add: e')
    show "\<exists>pre c c' items.
          evs = pre @ [New_coordinator c, Call_first_refresh,
                       Host_forward_entry_setups (entry_id entry) (PLATFORMS k)] \<and>
          async_config_entry_first_refresh w c = (Inr (), c') \<and>
          async_forward_entry_setups w entry' (PLATFORMS k) = Inr () \<and>
          hass_data hass' (DOMAIN k) = Some items \<and>
          items (entry_id entry) = Some (Coordinator c')"
      using fr fw hd by (simp add: evs evs2 evs3 eid)
  next
    fix c err c'
    assume h: "New_coordinator c \<in> set evs \<and>
        async_config_entry_first_refresh w c = (Inl err, c') \<and> isinstance err TadoXApiError"
    from async_setup_entry_cases [OF run] h obtain hid u api' evs2 where
      evs: "evs = [Call_refresh_access_token,
             Host_async_update_entry (entry_id entry) (with_tokens k w (entry_data entry) api')] @ evs2"
      and sc: "setup_coordinator k w hass (entry\<lparr>entry_data := with_tokens k w (entry_data entry) api'\<rparr>) api' hid
        (dict_get (entry_data entry) (CONF_HOME_NAME k) (VStr (''Tado Home '' @ py_str w hid)))
        = (r, hass', evs2)"
      by (auto split: if_splits)
    from setup_coordinator_cases [OF sc] h evs obtain c0 evs3 where
      evs2: "evs2 = [Host_device_get_or_create (entry_id entry) (py_str w hid)
                (dict_get (entry_data entry) (CONF_HOME_NAME k) (VStr (''Tado Home '' @ py_str w hid))),
                      New_coordinator c0] @ evs3"
      and sf: "setup_fetch k w hass (entry\<lparr>entry_data := with_tokens k w (entry_data entry) api'\<rparr>) c0 = (r, hass', evs3)"
      by auto
    have c0: "c0 = c"
      using setup_fetch_cases [OF sf] h evs evs2
      by (auto split: prod.splits sum.splits)
    from setup_fetch_cases [OF sf] h c0
    have "r = Inl (raise_ConfigEntryNotReady err) \<and> hass' = hass \<and> evs3 = [Call_first_refresh]"
      by auto
    then show "\<exists>e. r = Inl e \<and> isinstance e ConfigEntryNotReady \<and> exn_cause e = Some err \<and>
               exn_msg e = ''Failed to fetch data: '' @ exn_msg err" and "hass' = hass"
      and "\<And>eid ps. Host_forward_entry_setups eid ps \<notin> set evs"
      by (simp_all add: evs evs2 ConfigEntryNotReady_made)
  qed
qed

text \<open>The sample run that succeeds, and the one whose first refresh fails.\<close>

theorem setup_true_after_first_refresh_witness:
  "fst sample_setup = Inr True \<and>
   (\<exists>pre c c' items.
      snd (snd (snd sample_setup)) =
        pre @ [New_coordinator c, Call_first_refresh,
               Host_forward_entry_setups (entry_id sample_entry) (PLATFORMS sample_const)] \<and>
      async_config_entry_first_refresh sample_world c = (Inr (), c') \<and>
      async_forward_entry_setups sample_world (fst (snd (snd sample_setup)))
        (PLATFORMS sample_const) = Inr () \<and>
      hass_data (fst (snd sample_setup)) (DOMAIN sample_const) = Some items \<and>
      items (entry_id sample_entry) = Some (Coordinator c')) \<and>
   New_coordinator sample_new_coordinator \<in> set (snd (snd (snd sample_setup_fetch_failed))) \<and>
   async_config_entry_first_refresh sample_world_fetch_failed sample_new_coordinator =
     (Inl sample_api_error, sample_new_coordinator) \<and>
   isinstance sample_api_error TadoXApiError \<and>
   (\<exists>e. fst sample_setup_fetch_failed = Inl e \<and> isinstance e ConfigEntryNotReady \<and>
        exn_cause e = Some sample_api_error \<and>
        exn_msg e = ''Failed to fetch data: HTTP 422'') \<and>
   fst (snd sample_setup_fetch_failed) = sample_hass"
proof -
  have ok: "fst sample_setup = Inr True"
    by (simp add: sample_setup_eval)
  have run1: "async_setup_entry sample_const sample_world sample_hass sample_entry =
      (fst sample_setup, fst (snd sample_setup),
       fst (snd (snd sample_setup)), snd (snd (snd sample_setup)))"
    by (simp add: sample_setup_def)
  have run2: "async_setup_entry sample_const sample_world_fetch_failed sample_hass sample_entry =
      (fst sample_setup_fetch_failed, fst (snd sample_setup_fetch_failed),
       fst (snd (snd sample_setup_fetch_failed)), snd (snd (snd sample_setup_fetch_failed)))"
    by (simp add: sample_setup_fetch_failed_def)
  have made: "New_coordinator sample_new_coordinator
      \<in> set (snd (snd (snd sample_setup_fetch_failed)))"
    by (simp add: sample_setup_fetch_failed_eval)
  have fr: "async_config_entry_first_refresh sample_world_fetch_failed sample_new_coordinator =
     (Inl sample_api_error, sample_new_coordinator)"
    by (simp add: sample_world_fetch_failed_def sample_world_def)
  have inst: "isinstance sample_api_error TadoXApiError"
    by (simp add: isinstance_def sample_api_error_def)
  from setup_true_after_first_refresh [THEN mp, OF run1] ok
  have good: "\<exists>pre c c' items.
      snd (snd (snd sample_setup)) =
        pre @ [New_coordinator c, Call_first_refresh,
               Host_forward_entry_setups (entry_id sample_entry) (PLATFORMS sample_const)] \<and>
      async_config_entry_first_refresh sample_world c = (Inr (), c') \<and>
      async_forward_entry_setups sample_world (fst (snd (snd sample_setup)))
        (PLATFORMS sample_const) = Inr () \<and>
      hass_data (fst (snd sample_setup)) (DOMAIN sample_const) = Some items \<and>
      items (entry_id sample_entry) = Some (Coordinator c')"
    by blast
  from setup_true_after_first_refresh [THEN mp, OF run2] made fr inst
  have "(\<exists>e. fst sample_setup_fetch_failed = Inl e \<and> isinstance e ConfigEntryNotReady \<and>
        exn_cause e = Some sample_api_error \<and>
        exn_msg e = ''Failed to fetch data: '' @ exn_msg sample_api_error) \<and>
      fst (snd sample_setup_fetch_failed) = sample_hass"
    by blast
  then have bad: "(\<exists>e. fst sample_setup_fetch_failed = Inl e \<and>
        isinstance e ConfigEntryNotReady \<and> exn_cause e = Some sample_api_error \<and>
        exn_msg e = ''Failed to fetch data: HTTP 422'') \<and>
      fst (snd sample_setup_fetch_failed) = sample_hass"
    by (simp add: sample_api_error_def)
  from ok good made fr inst bad show ?thesis by blast
qed

subsection \<open>The stored tokens\<close>

lemma with_tokens_other:
  "key \<notin> {CONF_ACCESS_TOKEN k, CONF_REFRESH_TOKEN k, CONF_TOKEN_EXPIRY k} \<Longrightarrow>
   with_tokens k w d api key = d key"
  by (simp add: with_tokens_def)

lemma with_tokens_new:
  "distinct [CONF_ACCESS_TOKEN k, CONF_REFRESH_TOKEN k, CONF_TOKEN_EXPIRY k] \<Longrightarrow>
   with_tokens k w d api (CONF_ACCESS_TOKEN k) = Some (access_token api) \<and>
   with_tokens k w d api (CONF_REFRESH_TOKEN k) = Some (refresh_token api) \<and>
   with_tokens k w d api (CONF_TOKEN_EXPIRY k) = Some (expiry_value w api)"
  by (auto simp: with_tokens_def)

lemma reauth_auth_success:
  "flow_api self = Some api \<Longrightarrow> truthy (flow_device_code self) \<Longrightarrow>
   poll_for_token w api (flow_device_code self) 3 120 = (Inr True, api1) \<Longrightarrow>
   get_reauth_entry w = Inr re \<Longrightarrow>
   async_step_reauth_auth k w self (Some ui) =
     (Inr (UpdateReloadAndAbort re (with_tokens k w (entry_data re) api1)),
      self\<lparr>flow_api := Some api1\<rparr>,
      [Call_poll_for_token (flow_device_code self) 3 120,
       Host_async_update_reload_and_abort (entry_id re) (with_tokens k w (entry_data re) api1)])"
  by (simp add: async_step_reauth_auth_def reauth_auth_try_def Let_def)

lemma setup_entry_updates:
  "entry_data entry (CONF_HOME_ID k) = Some hid \<Longrightarrow>
   refresh_access_token w (entry_api k w entry) = (Inr u, api') \<Longrightarrow>
   entry_data (fst (snd (snd (async_setup_entry k w hass entry)))) =
      with_tokens k w (entry_data entry) api' \<and>
   Host_async_update_entry (entry_id entry) (with_tokens k w (entry_data entry) api')
      \<in> set (snd (snd (snd (async_setup_entry k w hass entry))))"
  by (simp add: async_setup_entry_def Let_def split: prod.splits)

text \<open>
  C4. The dictionary \<open>with_tokens k w d a\<close> agrees with \<open>d\<close> on every key but the three
  token keys, and (the three being different keys) holds the client's access token, refresh
  token and token expiry under them, the expiry as its \<open>isoformat()\<close> text, or
  \<open>None\<close> when the client has none; so, the nine keys being different, the home id, the
  home name, the scan interval, the geofencing flag and the minimum and maximum temperature
  are carried over. It is the data that \<open>async_setup_entry\<close> gives the entry (through
  \<open>async_update_entry\<close>) once the refresh has returned, built from the entry's data and
  the refreshed client; and it is the data that \<open>async_step_reauth_auth\<close> hands to
  \<open>async_update_reload_and_abort\<close> once polling has succeeded, built from the data of
  the entry under reauthorization and the client after polling.
\<close>

theorem token_refresh_frame:
  "(\<forall>key. key \<notin> {CONF_ACCESS_TOKEN k, CONF_REFRESH_TOKEN k, CONF_TOKEN_EXPIRY k} \<longrightarrow>
      with_tokens k w d a key = d key) \<and>
   (distinct [CONF_ACCESS_TOKEN k, CONF_REFRESH_TOKEN k, CONF_TOKEN_EXPIRY k] \<longrightarrow>
      with_tokens k w d a (CONF_ACCESS_TOKEN k) = Some (access_token a) \<and>
      with_tokens k w d a (CONF_REFRESH_TOKEN k) = Some (refresh_token a) \<and>
      with_tokens k w d a (CONF_TOKEN_EXPIRY k) =
        Some (case token_expiry a of None \<Rightarrow> VNone | Some t \<Rightarrow> VStr (isoformat w t))) \<and>
   (distinct [CONF_ACCESS_TOKEN k, CONF_REFRESH_TOKEN k, CONF_TOKEN_EXPIRY k, CONF_HOME_ID k,
              CONF_HOME_NAME k, CONF_SCAN_INTERVAL k, CONF_GEOFENCING_ENABLED k,
              CONF_MIN_TEMP k, CONF_MAX_TEMP k] \<longrightarrow>
      with_tokens k w d a (CONF_HOME_ID k) = d (CONF_HOME_ID k) \<and>
      with_tokens k w d a (CONF_HOME_NAME k) = d (CONF_HOME_NAME k) \<and>
      with_tokens k w d a (CONF_SCAN_INTERVAL k) = d (CONF_SCAN_INTERVAL k) \<and>
      with_tokens k w d a (CONF_GEOFENCING_ENABLED k) = d (CONF_GEOFENCING_ENABLED k) \<and>
      with_tokens k w d a (CONF_MIN_TEMP k) = d (CONF_MIN_TEMP k) \<and>
      with_tokens k w d a (CONF_MAX_TEMP k) = d (CONF_MAX_TEMP k)) \<and>
   (\<forall>hid u api'. entry_data entry (CONF_HOME_ID k) = Some hid \<and>
       refresh_access_token w (entry_api k w entry) = (Inr u, api') \<longrightarrow>
         entry_data (fst (snd (snd (async_setup_entry k w hass entry)))) =
           with_tokens k w (entry_data entry) api' \<and>
         Host_async_update_entry (entry_id entry) (with_tokens k w (entry_data entry) api')
           \<in> set (snd (snd (snd (async_setup_entry k w hass entry))))) \<and>
   (\<forall>api api1 re ui. flow_api self = Some api \<and> truthy (flow_device_code self) \<and>
       poll_for_token w api (flow_device_code self) 3 120 = (Inr True, api1) \<and>
       get_reauth_entry w = Inr re \<longrightarrow>
         async_step_reauth_auth k w self (Some ui) =
           (Inr (UpdateReloadAndAbort re (with_tokens k w (entry_data re) api1)),
            self\<lparr>flow_api := Some api1\<rparr>,
            [Call_poll_for_token (flow_device_code self) 3 120,
             Host_async_update_reload_and_abort (entry_id re)
               (with_tokens k w (entry_data re) api1)]))"
proof (intro conjI allI impI)
  fix key
  assume "key \<notin> {CONF_ACCESS_TOKEN k, CONF_REFRESH_TOKEN k, CONF_TOKEN_EXPIRY k}"
  then show "with_tokens k w d a key = d key" by (rule with_tokens_other)
next
  assume di: "distinct [CONF_ACCESS_TOKEN k, CONF_REFRESH_TOKEN k, CONF_TOKEN_EXPIRY k]"
  from with_tokens_new [OF di]
  show "with_tokens k w d a (CONF_ACCESS_TOKEN k) = Some (access_token a)"
    and "with_tokens k w d a (CONF_REFRESH_TOKEN k) = Some (refresh_token a)"
    and "with_tokens k w d a (CONF_TOKEN_EXPIRY k) =
        Some (case token_expiry a of None \<Rightarrow> VNone | Some t \<Rightarrow> VStr (isoformat w t))"
    by (simp_all add: expiry_value_def)
next
  assume di: "distinct [CONF_ACCESS_TOKEN k, CONF_REFRESH_TOKEN k, CONF_TOKEN_EXPIRY k, CONF_HOME_ID k,
              CONF_HOME_NAME k, CONF_SCAN_INTERVAL k, CONF_GEOFENCING_ENABLED k,
              CONF_MIN_TEMP k, CONF_MAX_TEMP k]"
  then show "with_tokens k w d a (CONF_HOME_ID k) = d (CONF_HOME_ID k)"
    and "with_tokens k w d a (CONF_HOME_NAME k) = d (CONF_HOME_NAME k)"
    and "with_tokens k w d a (CONF_SCAN_INTERVAL k) = d (CONF_SCAN_INTERVAL k)"
    and "with_tokens k w d a (CONF_GEOFENCING_ENABLED k) = d (CONF_GEOFENCING_ENABLED k)"
    and "with_tokens k w d a (CONF_MIN_TEMP k) = d (CONF_MIN_TEMP k)"
    and "with_tokens k w d a (CONF_MAX_TEMP k) = d (CONF_MAX_TEMP k)"
    by (auto intro!: with_tokens_other)
next
  fix hid u api'
  assume h: "entry_data entry (CONF_HOME_ID k) = Some hid \<and>
       refresh_access_token w (entry_api k w entry) = (Inr u, api')"
  from setup_entry_updates [of entry k hid w u api' hass] h
  show "entry_data (fst (snd (snd (async_setup_entry k w hass entry)))) =
           with_tokens k w (entry_data entry) api'"
    and "Host_async_update_entry (entry_id entry) (with_tokens k w (entry_data entry) api')
           \<in> set (snd (snd (snd (async_setup_entry k w hass entry))))"
    by simp_all
next
  fix api api1 re ui
  assume h: "flow_api self = Some api \<and> truthy (flow_device_code self) \<and>
       poll_for_token w api (flow_device_code self) 3 120 = (Inr True, api1) \<and>
       get_reauth_entry w = Inr re"
  then show "async_step_reauth_auth k w self (Some ui) =
           (Inr (UpdateReloadAndAbort re (with_tokens k w (entry_data re) api1)),
            self\<lparr>flow_api := Some api1\<rparr>,
            [Call_poll_for_token (flow_device_code self) 3 120,
             Host_async_update_reload_and_abort (entry_id re)
               (with_tokens k w (entry_data re) api1)])"
    by (simp add: reauth_auth_success)
qed

text \<open>
  On the sample entry: its home id and scan interval stay, its access token is replaced;
  the setup stores these data, and the reauthorization of the sample flow hands them to the
  host.
\<close>

theorem token_refresh_frame_witness:
  "distinct [CONF_ACCESS_TOKEN sample_const, CONF_REFRESH_TOKEN sample_const,
             CONF_TOKEN_EXPIRY sample_const, CONF_HOME_ID sample_const,
             CONF_HOME_NAME sample_const, CONF_SCAN_INTERVAL sample_const,
             CONF_GEOFENCING_ENABLED sample_const, CONF_MIN_TEMP sample_const,
             CONF_MAX_TEMP sample_const] \<and>
   with_tokens sample_const sample_world (entry_data sample_entry) sample_api ''home_id'' =
     Some (VInt 7) \<and>
   with_tokens sample_const sample_world (entry_data sample_entry) sample_api ''scan_interval'' =
     Some (VInt 60) \<and>
   with_tokens sample_const sample_world (entry_data sample_entry) sample_api ''access_token'' =
     Some (VStr ''at1'') \<and>
   with_tokens sample_const sample_world (entry_data sample_entry) sample_api ''refresh_token'' =
     Some (VStr ''rt1'') \<and>
   with_tokens sample_const sample_world (entry_data sample_entry) sample_api ''token_expiry'' =
     Some (VStr ''2030-01-01T00:00:00'') \<and>
   entry_data (fst (snd (snd sample_setup))) =
     with_tokens sample_const sample_world (entry_data sample_entry) sample_api \<and>
   async_step_reauth_auth sample_const sample_world sample_flow (Some Map.empty) =
     (Inr (UpdateReloadAndAbort sample_entry
             (with_tokens sample_const sample_world (entry_data sample_entry) sample_api)),
      sample_flow\<lparr>flow_api := Some sample_api\<rparr>,
      [Call_poll_for_token (VStr ''dc'') 3 120,
       Host_async_update_reload_and_abort ''e1''
         (with_tokens sample_const sample_world (entry_data sample_entry) sample_api)])"
proof -
  note frame = token_refresh_frame
    [of sample_const sample_world "entry_data sample_entry" sample_api sample_entry
        sample_hass sample_flow]
  have di: "distinct [CONF_ACCESS_TOKEN sample_const, CONF_REFRESH_TOKEN sample_const,
             CONF_TOKEN_EXPIRY sample_const, CONF_HOME_ID sample_const,
             CONF_HOME_NAME sample_const, CONF_SCAN_INTERVAL sample_const,
             CONF_GEOFENCING_ENABLED sample_const, CONF_MIN_TEMP sample_const,
             CONF_MAX_TEMP sample_const]"
    by (simp add: sample_const_def)
  then have di3: "distinct [CONF_ACCESS_TOKEN sample_const, CONF_REFRESH_TOKEN sample_const,
             CONF_TOKEN_EXPIRY sample_const]"
    by simp
  have hid: "entry_data sample_entry (CONF_HOME_ID sample_const) = Some (VInt 7)"
    by (simp add: sample_entry_def sample_const_def)
  have rf: "refresh_access_token sample_world (entry_api sample_const sample_world sample_entry) =
      (Inr (), sample_api)"
    by (simp add: sample_world_def)
  have fl: "flow_api sample_flow = Some new_TadoXApi \<and> truthy (flow_device_code sample_flow) \<and>
      flow_device_code sample_flow = VStr ''dc''"
    by (simp add: sample_flow_def new_TadoXConfigFlow_def)
  have poll: "poll_for_token sample_world new_TadoXApi (flow_device_code sample_flow) 3 120 =
      (Inr True, sample_api)"
    by (simp add: sample_world_def)
  have re: "get_reauth_entry sample_world = Inr sample_entry"
    by (simp add: sample_world_def)
  from frame di have kept:
    "with_tokens sample_const sample_world (entry_data sample_entry) sample_api
        (CONF_HOME_ID sample_const) = entry_data sample_entry (CONF_HOME_ID sample_const) \<and>
     with_tokens sample_const sample_world (entry_data sample_entry) sample_api
        (CONF_SCAN_INTERVAL sample_const) = entry_data sample_entry (CONF_SCAN_INTERVAL sample_const)"
    by blast
  from frame di3 have new:
    "with_tokens sample_const sample_world (entry_data sample_entry) sample_api
        (CONF_ACCESS_TOKEN sample_const) = Some (access_token sample_api) \<and>
     with_tokens sample_const sample_world (entry_data sample_entry) sample_api
        (CONF_REFRESH_TOKEN sample_const) = Some (refresh_token sample_api) \<and>
     with_tokens sample_const sample_world (entry_data sample_entry) sample_api
        (CONF_TOKEN_EXPIRY sample_const) =
       Some (case token_expiry sample_api of
               None \<Rightarrow> VNone
             | Some t \<Rightarrow> VStr (isoformat sample_world t))"
    by blast
  from frame hid rf have stored:
    "entry_data (fst (snd (snd (async_setup_entry sample_const sample_world sample_hass sample_entry)))) =
       with_tokens sample_const sample_world (entry_data sample_entry) sample_api"
    by blast
  from frame fl poll re have reauth:
    "async_step_reauth_auth sample_const sample_world sample_flow (Some Map.empty) =
       (Inr (UpdateReloadAndAbort sample_entry
               (with_tokens sample_const sample_world (entry_data sample_entry) sample_api)),
        sample_flow\<lparr>flow_api := Some sample_api\<rparr>,
        [Call_poll_for_token (flow_device_code sample_flow) 3 120,
         Host_async_update_reload_and_abort (entry_id sample_entry)
           (with_tokens sample_const sample_world (entry_data sample_entry) sample_api)])"
    by blast
  from kept have k1:
    "with_tokens sample_const sample_world (entry_data sample_entry) sample_api ''home_id'' =
       Some (VInt 7) \<and>
     with_tokens sample_const sample_world (entry_data sample_entry) sample_api ''scan_interval'' =
       Some (VInt 60)"
    by (simp add: sample_const_def sample_entry_def)
  from new have n1:
    "with_tokens sample_const sample_world (entry_data sample_entry) sample_api ''access_token'' =
       Some (VStr ''at1'') \<and>
     with_tokens sample_const sample_world (entry_data sample_entry) sample_api ''refresh_token'' =
       Some (VStr ''rt1'') \<and>
     with_tokens sample_const sample_world (entry_data sample_entry) sample_api ''token_expiry'' =
       Some (VStr ''2030-01-01T00:00:00'')"
    by (simp add: sample_const_def sample_api_def sample_world_def)
  from stored have s1: "entry_data (fst (snd (snd sample_setup))) =
     with_tokens sample_const sample_world (entry_data sample_entry) sample_api"
    by (simp add: sample_setup_def)
  from reauth fl have r1:
    "async_step_reauth_auth sample_const sample_world sample_flow (Some Map.empty) =
     (Inr (UpdateReloadAndAbort sample_entry
             (with_tokens sample_const sample_world (entry_data sample_entry) sample_api)),
      sample_flow\<lparr>flow_api := Some sample_api\<rparr>,
      [Call_poll_for_token (VStr ''dc'') 3 120,
       Host_async_update_reload_and_abort ''e1''
         (with_tokens sample_const sample_world (entry_data sample_entry) sample_api)])"
    by (simp add: sample_entry_def)
  from di k1 n1 s1 r1 show ?thesis by blast
qed

section \<open>Properties of the config flow\<close>

subsection \<open>Polling for the token\<close>

lemma auth_try_events:
  "auth_try k w self api = (x, self', evs) \<Longrightarrow>
   (\<exists>rest. evs = Call_poll_for_token (flow_device_code self) 3 120 # rest \<and> set rest \<subseteq> {Call_get_homes})"
  by (auto simp: auth_try_def Let_def split: prod.splits sum.splits if_splits)

lemma reauth_auth_try_events:
  "reauth_auth_try k w self api = (x, self', evs) \<Longrightarrow>
   (\<exists>rest. evs = Call_poll_for_token (flow_device_code self) 3 120 # rest \<and>
      (\<forall>dc i t. Call_poll_for_token dc i t \<notin> set rest))"
  by (auto simp: reauth_auth_try_def Let_def split: prod.splits sum.splits if_splits)

lemma step_auth_polls:
  "Call_poll_for_token dc i t \<in> set (snd (snd (async_step_auth k w self ui))) \<Longrightarrow> i = 3 \<and> t = 120"
  by (auto simp: async_step_auth_def split: option.splits prod.splits try_exit.splits if_splits
        dest!: auth_try_events)

lemma step_reauth_auth_polls:
  "Call_poll_for_token dc i t \<in> set (snd (snd (async_step_reauth_auth k w self ui))) \<Longrightarrow> i = 3 \<and> t = 120"
  by (auto simp: async_step_reauth_auth_def split: option.splits prod.splits try_exit.splits if_splits
        dest!: reauth_auth_try_events)

lemma step_auth_polls_first:
  "flow_api self = Some api \<Longrightarrow> truthy (flow_device_code self) \<Longrightarrow>
   \<exists>rest. snd (snd (async_step_auth k w self (Some ui))) =
      Call_poll_for_token (flow_device_code self) 3 120 # rest"
  by (auto simp: async_step_auth_def split: option.splits prod.splits try_exit.splits if_splits
        dest!: auth_try_events)

lemma step_reauth_auth_polls_first:
  "flow_api self = Some api \<Longrightarrow> truthy (flow_device_code self) \<Longrightarrow>
   \<exists>rest. snd (snd (async_step_reauth_auth k w self (Some ui))) =
      Call_poll_for_token (flow_device_code self) 3 120 # rest"
  by (auto simp: async_step_reauth_auth_def split: option.splits prod.splits try_exit.splits if_splits
        dest!: reauth_auth_try_events)

lemma step_auth_timeout:
  "flow_api self = Some api \<Longrightarrow> truthy (flow_device_code self) \<Longrightarrow>
      poll_for_token w api (flow_device_code self) 3 120 = (Inr False, api1) \<Longrightarrow>
       async_step_auth k w self (Some ui) =
         (Inr (ShowForm ''auth'' Schema_empty (Some [''base'' \<mapsto> ''auth_timeout''])
                 (Some [''user_code'' \<mapsto>
                          (if truthy (flow_user_code self) then flow_user_code self else VStr []),
                        ''verification_uri'' \<mapsto>
                          (if truthy (flow_verification_uri self) then flow_verification_uri self
                           else VStr [])])),
          self\<lparr>flow_api := Some api1\<rparr>,
          [Call_poll_for_token (flow_device_code self) 3 120]) \<and>
       async_step_reauth_auth k w self (Some ui) =
         (Inr (ShowForm ''reauth_auth'' Schema_empty (Some [''base'' \<mapsto> ''auth_timeout''])
                 (Some [''user_code'' \<mapsto>
                          (if truthy (flow_user_code self) then flow_user_code self else VStr []),
                        ''verification_uri'' \<mapsto>
                          (if truthy (flow_verification_uri self) then flow_verification_uri self
                           else VStr [])])),
          self\<lparr>flow_api := Some api1\<rparr>,
          [Call_poll_for_token (flow_device_code self) 3 120])"
  by (simp add: async_step_auth_def auth_try_def async_step_reauth_auth_def reauth_auth_try_def
        auth_form_def py_or_def)

text \<open>
  C1. When \<open>async_step_auth\<close> or \<open>async_step_reauth_auth\<close> is given input while the
  flow has its API client and a device code, its first call is \<open>poll_for_token\<close> with
  the device code, \<open>interval=3\<close> and \<open>timeout=120\<close>; no run of either step polls with
  another interval or timeout; and when that poll returns \<open>False\<close>, the step shows its
  own form again with the error \<open>auth_timeout\<close> under \<open>"base"\<close>, having made no other
  call: it neither asks for an entry to be created nor updates one.
\<close>

theorem poll_bounded_and_timeout:
  "(\<forall>api ui. flow_api self = Some api \<and> truthy (flow_device_code self) \<longrightarrow>
      (\<exists>rest. snd (snd (async_step_auth k w self (Some ui))) =
          Call_poll_for_token (flow_device_code self) 3 120 # rest) \<and>
      (\<exists>rest. snd (snd (async_step_reauth_auth k w self (Some ui))) =
          Call_poll_for_token (flow_device_code self) 3 120 # rest)) \<and>
   (\<forall>ui dc i t. Call_poll_for_token dc i t \<in> set (snd (snd (async_step_auth k w self ui))) \<or>
        Call_poll_for_token dc i t \<in> set (snd (snd (async_step_reauth_auth k w self ui)))
        \<longrightarrow> i = 3 \<and> t = 120) \<and>
   (\<forall>api api1 ui. flow_api self = Some api \<and> truthy (flow_device_code self) \<and>
      poll_for_token w api (flow_device_code self) 3 120 = (Inr False, api1) \<longrightarrow>
       async_step_auth k w self (Some ui) =
         (Inr (ShowForm ''auth'' Schema_empty (Some [''base'' \<mapsto> ''auth_timeout''])
                 (Some [''user_code'' \<mapsto>
                          (if truthy (flow_user_code self) then flow_user_code self else VStr []),
                        ''verification_uri'' \<mapsto>
                          (if truthy (flow_verification_uri self) then flow_verification_uri self
                           else VStr [])])),
          self\<lparr>flow_api := Some api1\<rparr>,
          [Call_poll_for_token (flow_device_code self) 3 120]) \<and>
       async_step_reauth_auth k w self (Some ui) =
         (Inr (ShowForm ''reauth_auth'' Schema_empty (Some [''base'' \<mapsto> ''auth_timeout''])
                 (Some [''user_code'' \<mapsto>
                          (if truthy (flow_user_code self) then flow_user_code self else VStr []),
                        ''verification_uri'' \<mapsto>
                          (if truthy (flow_verification_uri self) then flow_verification_uri self
                           else VStr [])])),
          self\<lparr>flow_api := Some api1\<rparr>,
          [Call_poll_for_token (flow_device_code self) 3 120]))"
  using step_auth_polls [of _ _ _ k w self] step_reauth_auth_polls [of _ _ _ k w self]
    step_auth_polls_first [of self _ k w] step_reauth_auth_polls_first [of self _ k w]
    step_auth_timeout [of self _ w _ k]
  by blast

text \<open>The sample flow, which has no user code and no verification URI yet, in the world
  where polling times out.\<close>

theorem poll_bounded_and_timeout_witness:
  "flow_api sample_flow = Some new_TadoXApi \<and> truthy (flow_device_code sample_flow) \<and>
   poll_for_token sample_world_timeout new_TadoXApi (flow_device_code sample_flow) 3 120 =
     (Inr False, new_TadoXApi) \<and>
   async_step_auth sample_const sample_world_timeout sample_flow (Some Map.empty) =
     (Inr (ShowForm ''auth'' Schema_empty (Some [''base'' \<mapsto> ''auth_timeout''])
             (Some [''user_code'' \<mapsto> VStr [], ''verification_uri'' \<mapsto> VStr []])),
      sample_flow, [Call_poll_for_token (VStr ''dc'') 3 120]) \<and>
   async_step_reauth_auth sample_const sample_world_timeout sample_flow (Some Map.empty) =
     (Inr (ShowForm ''reauth_auth'' Schema_empty (Some [''base'' \<mapsto> ''auth_timeout''])
             (Some [''user_code'' \<mapsto> VStr [], ''verification_uri'' \<mapsto> VStr []])),
      sample_flow, [Call_poll_for_token (VStr ''dc'') 3 120])"
proof -
  have fl: "flow_api sample_flow = Some new_TadoXApi \<and> truthy (flow_device_code sample_flow)"
    by (simp add: sample_flow_def new_TadoXConfigFlow_def)
  have poll: "poll_for_token sample_world_timeout new_TadoXApi (flow_device_code sample_flow) 3 120 =
     (Inr False, new_TadoXApi)"
    by (simp add: sample_world_timeout_def sample_world_def)
  have same: "sample_flow\<lparr>flow_api := Some new_TadoXApi\<rparr> = sample_flow"
    by (simp add: sample_flow_def)
  have codes: "flow_device_code sample_flow = VStr ''dc'' \<and> flow_user_code sample_flow = VNone \<and>
      flow_verification_uri sample_flow = VNone"
    by (simp add: sample_flow_def new_TadoXConfigFlow_def)
  from poll_bounded_and_timeout [of sample_flow sample_const sample_world_timeout] fl poll
  have "async_step_auth sample_const sample_world_timeout sample_flow (Some Map.empty) =
         (Inr (ShowForm ''auth'' Schema_empty (Some [''base'' \<mapsto> ''auth_timeout''])
                 (Some [''user_code'' \<mapsto>
                          (if truthy (flow_user_code sample_flow) then flow_user_code sample_flow
                           else VStr []),
                        ''verification_uri'' \<mapsto>
                          (if truthy (flow_verification_uri sample_flow)
                           then flow_verification_uri sample_flow else VStr [])])),
          sample_flow\<lparr>flow_api := Some new_TadoXApi\<rparr>,
          [Call_poll_for_token (flow_device_code sample_flow) 3 120]) \<and>
       async_step_reauth_auth sample_const sample_world_timeout sample_flow (Some Map.empty) =
         (Inr (ShowForm ''reauth_auth'' Schema_empty (Some [''base'' \<mapsto> ''auth_timeout''])
                 (Some [''user_code'' \<mapsto>
                          (if truthy (flow_user_code sample_flow) then flow_user_code sample_flow
                           else VStr []),
                        ''verification_uri'' \<mapsto>
                          (if truthy (flow_verification_uri sample_flow)
                           then flow_verification_uri sample_flow else VStr [])])),
          sample_flow\<lparr>flow_api := Some new_TadoXApi\<rparr>,
          [Call_poll_for_token (flow_device_code sample_flow) 3 120])"
    by blast
  with fl poll show ?thesis by (simp add: same codes)
qed

subsection \<open>The homes of the account\<close>

lemma home_options_raises:
  "home_options hs acc = Inl e \<Longrightarrow> e = raise_KeyError ''id'' \<or> e = raise_KeyError ''name''"
  by (induction hs arbitrary: acc) (auto split: option.splits)

lemma home_options_returns:
  "\<forall>h\<in>set hs. h ''id'' \<noteq> None \<and> h ''name'' \<noteq> None \<Longrightarrow> \<exists>opts. home_options hs acc = Inr opts"
  by (induction hs arbitrary: acc) auto

lemma KeyError_not_auth: "\<not> isinstance (raise_KeyError s) TadoXAuthError"
  by (simp add: isinstance_def raise_KeyError_def)

lemma select_home_form_raises:
  "select_home_form self = Inl e \<Longrightarrow> \<not> isinstance e TadoXAuthError"
  by (auto simp: select_home_form_def KeyError_not_auth split: sum.splits dest!: home_options_raises)

lemma step_auth_one_home:
  "flow_api self = Some api \<Longrightarrow> truthy (flow_device_code self) \<Longrightarrow>
   poll_for_token w api (flow_device_code self) 3 120 = (Inr True, api1) \<Longrightarrow>
   get_homes w api1 = (Inr [h], api2) \<Longrightarrow>
   async_step_auth k w self (Some ui) =
     (async_step_configure k w
        (self\<lparr>flow_api := Some api2, flow_homes := [h], flow_selected_home := Some h\<rparr>) None,
      self\<lparr>flow_api := Some api2, flow_homes := [h], flow_selected_home := Some h\<rparr>,
      [Call_poll_for_token (flow_device_code self) 3 120, Call_get_homes])"
  by (simp add: async_step_auth_def auth_try_def Let_def async_step_configure_def)

lemma step_auth_many_homes:
  "flow_api self = Some api \<Longrightarrow> truthy (flow_device_code self) \<Longrightarrow>
   poll_for_token w api (flow_device_code self) 3 120 = (Inr True, api1) \<Longrightarrow>
   get_homes w api1 = (Inr homes, api2) \<Longrightarrow> length homes > 1 \<Longrightarrow>
   async_step_auth k w self (Some ui) =
     (fst (async_step_select_home k w (self\<lparr>flow_api := Some api2, flow_homes := homes\<rparr>) None),
      self\<lparr>flow_api := Some api2, flow_homes := homes\<rparr>,
      [Call_poll_for_token (flow_device_code self) 3 120, Call_get_homes])"
  by (auto simp: async_step_auth_def auth_try_def Let_def async_step_select_home_def
      split: sum.splits dest: select_home_form_raises)

lemma step_auth_no_homes:
  "flow_api self = Some api \<Longrightarrow> truthy (flow_device_code self) \<Longrightarrow>
   poll_for_token w api (flow_device_code self) 3 120 = (Inr True, api1) \<Longrightarrow>
   get_homes w api1 = (Inr [], api2) \<Longrightarrow>
   async_step_auth k w self (Some ui) =
     (Inr (ShowForm ''auth'' Schema_empty (Some [''base'' \<mapsto> ''no_homes''])
             (Some [''user_code'' \<mapsto>
                      (if truthy (flow_user_code self) then flow_user_code self else VStr []),
                    ''verification_uri'' \<mapsto>
                      (if truthy (flow_verification_uri self) then flow_verification_uri self
                       else VStr [])])),
      self\<lparr>flow_api := Some api2, flow_homes := []\<rparr>,
      [Call_poll_for_token (flow_device_code self) 3 120, Call_get_homes])"
  by (simp add: async_step_auth_def auth_try_def Let_def auth_form_def py_or_def)

lemma step_configure_form:
  "async_step_configure k w self None =
     Inr (ShowForm ''configure''
            (Schema_configure (DEFAULT_SCAN_INTERVAL k) (MIN_TEMP k) (MAX_TEMP k)) None
            (Some [''default_interval'' \<mapsto> VStr (py_str w (DEFAULT_SCAN_INTERVAL k))]))"
  by (simp add: async_step_configure_def)

lemma step_select_home_form:
  "\<forall>h\<in>set (flow_homes self). h ''id'' \<noteq> None \<and> h ''name'' \<noteq> None \<Longrightarrow>
   \<exists>opts. async_step_select_home k w self None =
      (Inr (ShowForm ''select_home'' (Schema_select_home opts) None None), self)"
  using home_options_returns [of "flow_homes self" "[]"]
  by (auto simp: async_step_select_home_def select_home_form_def)

text \<open>
  C3. After a poll that succeeded and a call of \<open>get_homes\<close> that returned, what
  \<open>async_step_auth\<close> does depends on the number of homes only. With exactly one home it
  selects that home and returns what the configure step returns, which is the configure
  form. With more than one home it returns what the select-home step returns, which is the
  select-home form when every home has an \<open>"id"\<close> and a \<open>"name"\<close>. With no home it
  returns the auth form again with the error \<open>no_homes\<close> under \<open>"base"\<close>. In each case
  the homes are kept in the flow and the calls made are the poll and \<open>get_homes\<close>.
\<close>

theorem auth_branches_on_homes:
  "flow_api self = Some api \<and> truthy (flow_device_code self) \<and>
   poll_for_token w api (flow_device_code self) 3 120 = (Inr True, api1) \<and>
   get_homes w api1 = (Inr homes, api2) \<longrightarrow>
   (\<forall>h. homes = [h] \<longrightarrow>
      async_step_auth k w self (Some ui) =
        (async_step_configure k w
           (self\<lparr>flow_api := Some api2, flow_homes := homes, flow_selected_home := Some h\<rparr>) None,
         self\<lparr>flow_api := Some api2, flow_homes := homes, flow_selected_home := Some h\<rparr>,
         [Call_poll_for_token (flow_device_code self) 3 120, Call_get_homes]) \<and>
      (\<exists>schema ph. fst (async_step_auth k w self (Some ui)) =
         Inr (ShowForm ''configure'' schema None ph))) \<and>
   (length homes > 1 \<longrightarrow>
      async_step_auth k w self (Some ui) =
        (fst (async_step_select_home k w (self\<lparr>flow_api := Some api2, flow_homes := homes\<rparr>) None),
         self\<lparr>flow_api := Some api2, flow_homes := homes\<rparr>,
         [Call_poll_for_token (flow_device_code self) 3 120, Call_get_homes]) \<and>
      ((\<forall>h\<in>set homes. h ''id'' \<noteq> None \<and> h ''name'' \<noteq> None) \<longrightarrow>
         (\<exists>opts. fst (async_step_auth k w self (Some ui)) =
            Inr (ShowForm ''select_home'' (Schema_select_home opts) None None)))) \<and>
   (homes = [] \<longrightarrow>
      async_step_auth k w self (Some ui) =
        (Inr (ShowForm ''auth'' Schema_empty (Some [''base'' \<mapsto> ''no_homes''])
                (Some [''user_code'' \<mapsto>
                         (if truthy (flow_user_code self) then flow_user_code self else VStr []),
                       ''verification_uri'' \<mapsto>
                         (if truthy (flow_verification_uri self) then flow_verification_uri self
                          else VStr [])])),
         self\<lparr>flow_api := Some api2, flow_homes := homes\<rparr>,
         [Call_poll_for_token (flow_device_code self) 3 120, Call_get_homes]))"
proof (intro impI)
  assume h: "flow_api self = Some api \<and> truthy (flow_device_code self) \<and>
   poll_for_token w api (flow_device_code self) 3 120 = (Inr True, api1) \<and>
   get_homes w api1 = (Inr homes, api2)"
  have one: "\<forall>h. homes = [h] \<longrightarrow>
      async_step_auth k w self (Some ui) =
        (async_step_configure k w
           (self\<lparr>flow_api := Some api2, flow_homes := homes, flow_selected_home := Some h\<rparr>) None,
         self\<lparr>flow_api := Some api2, flow_homes := homes, flow_selected_home := Some h\<rparr>,
         [Call_poll_for_token (flow_device_code self) 3 120, Call_get_homes]) \<and>
      (\<exists>schema ph. fst (async_step_auth k w self (Some ui)) =
         Inr (ShowForm ''configure'' schema None ph))"
    using h step_auth_one_home [of self api w api1 _ api2 k ui]
    by (auto simp: step_configure_form)
  have many: "length homes > 1 \<longrightarrow>
      async_step_auth k w self (Some ui) =
        (fst (async_step_select_home k w (self\<lparr>flow_api := Some api2, flow_homes := homes\<rparr>) None),
         self\<lparr>flow_api := Some api2, flow_homes := homes\<rparr>,
         [Call_poll_for_token (flow_device_code self) 3 120, Call_get_homes]) \<and>
      ((\<forall>h\<in>set homes. h ''id'' \<noteq> None \<and> h ''name'' \<noteq> None) \<longrightarrow>
         (\<exists>opts. fst (async_step_auth k w self (Some ui)) =
            Inr (ShowForm ''select_home'' (Schema_select_home opts) None None)))"
  proof (intro impI conjI)
    assume m: "length homes > 1"
    with h show eq: "async_step_auth k w self (Some ui) =
        (fst (async_step_select_home k w (self\<lparr>flow_api := Some api2, flow_homes := homes\<rparr>) None),
         self\<lparr>flow_api := Some api2, flow_homes := homes\<rparr>,
         [Call_poll_for_token (flow_device_code self) 3 120, Call_get_homes])"
      by (simp add: step_auth_many_homes)
    assume wf: "\<forall>h\<in>set homes. h ''id'' \<noteq> None \<and> h ''name'' \<noteq> None"
    from step_select_home_form [of "self\<lparr>flow_api := Some api2, flow_homes := homes\<rparr>" k w] wf
    obtain opts where "async_step_select_home k w (self\<lparr>flow_api := Some api2, flow_homes := homes\<rparr>) None =
      (Inr (ShowForm ''select_home'' (Schema_select_home opts) None None),
       self\<lparr>flow_api := Some api2, flow_homes := homes\<rparr>)"
      by auto
    with eq show "\<exists>opts. fst (async_step_auth k w self (Some ui)) =
            Inr (ShowForm ''select_home'' (Schema_select_home opts) None None)"
      by simp
  qed
  have none: "homes = [] \<longrightarrow>
      async_step_auth k w self (Some ui) =
        (Inr (ShowForm ''auth'' Schema_empty (Some [''base'' \<mapsto> ''no_homes''])
                (Some [''user_code'' \<mapsto>
                         (if truthy (flow_user_code self) then flow_user_code self else VStr []),
                       ''verification_uri'' \<mapsto>
                         (if truthy (flow_verification_uri self) then flow_verification_uri self
                          else VStr [])])),
         self\<lparr>flow_api := Some api2, flow_homes := homes\<rparr>,
         [Call_poll_for_token (flow_device_code self) 3 120, Call_get_homes])"
    using h step_auth_no_homes [of self api w api1 api2 k ui] by auto
  from one many none
  show "(\<forall>h. homes = [h] \<longrightarrow>
      async_step_auth k w self (Some ui) =
        (async_step_configure k w
           (self\<lparr>flow_api := Some api2, flow_homes := homes, flow_selected_home := Some h\<rparr>) None,
         self\<lparr>flow_api := Some api2, flow_homes := homes, flow_selected_home := Some h\<rparr>,
         [Call_poll_for_token (flow_device_code self) 3 120, Call_get_homes]) \<and>
      (\<exists>schema ph. fst (async_step_auth k w self (Some ui)) =
         Inr (ShowForm ''configure'' schema None ph))) \<and>
   (length homes > 1 \<longrightarrow>
      async_step_auth k w self (Some ui) =
        (fst (async_step_select_home k w (self\<lparr>flow_api := Some api2, flow_homes := homes\<rparr>) None),
         self\<lparr>flow_api := Some api2, flow_homes := homes\<rparr>,
         [Call_poll_for_token (flow_device_code self) 3 120, Call_get_homes]) \<and>
      ((\<forall>h\<in>set homes. h ''id'' \<noteq> None \<and> h ''name'' \<noteq> None) \<longrightarrow>
         (\<exists>opts. fst (async_step_auth k w self (Some ui)) =
            Inr (ShowForm ''select_home'' (Schema_select_home opts) None None)))) \<and>
   (homes = [] \<longrightarrow>
      async_step_auth k w self (Some ui) =
        (Inr (ShowForm ''auth'' Schema_empty (Some [''base'' \<mapsto> ''no_homes''])
                (Some [''user_code'' \<mapsto>
                         (if truthy (flow_user_code self) then flow_user_code self else VStr []),
                       ''verification_uri'' \<mapsto>
                         (if truthy (flow_verification_uri self) then flow_verification_uri self
                          else VStr [])])),
         self\<lparr>flow_api := Some api2, flow_homes := homes\<rparr>,
         [Call_poll_for_token (flow_device_code self) 3 120, Call_get_homes]))"
    by blast
qed

text \<open>The sample flow in the worlds with one home, with two homes and with none.\<close>

theorem auth_branches_on_homes_witness:
  "flow_api sample_flow = Some new_TadoXApi \<and> truthy (flow_device_code sample_flow) \<and>
   poll_for_token sample_world new_TadoXApi (flow_device_code sample_flow) 3 120 =
     (Inr True, sample_api) \<and>
   get_homes sample_world sample_api = (Inr [sample_home], sample_api) \<and>
   get_homes sample_world_two_homes sample_api = (Inr [sample_home, sample_home2], sample_api) \<and>
   get_homes sample_world_no_homes sample_api = (Inr [], sample_api) \<and>
   (\<exists>schema ph. fst (async_step_auth sample_const sample_world sample_flow (Some Map.empty)) =
      Inr (ShowForm ''configure'' schema None ph)) \<and>
   (\<exists>opts. fst (async_step_auth sample_const sample_world_two_homes sample_flow (Some Map.empty)) =
      Inr (ShowForm ''select_home'' (Schema_select_home opts) None None)) \<and>
   async_step_auth sample_const sample_world_no_homes sample_flow (Some Map.empty) =
     (Inr (ShowForm ''auth'' Schema_empty (Some [''base'' \<mapsto> ''no_homes''])
             (Some [''user_code'' \<mapsto> VStr [], ''verification_uri'' \<mapsto> VStr []])),
      sample_flow\<lparr>flow_api := Some sample_api, flow_homes := []\<rparr>,
      [Call_poll_for_token (VStr ''dc'') 3 120, Call_get_homes])"
proof -
  have fl: "flow_api sample_flow = Some new_TadoXApi \<and> truthy (flow_device_code sample_flow)"
    by (simp add: sample_flow_def new_TadoXConfigFlow_def)
  have codes: "flow_device_code sample_flow = VStr ''dc'' \<and> flow_user_code sample_flow = VNone \<and>
      flow_verification_uri sample_flow = VNone"
    by (simp add: sample_flow_def new_TadoXConfigFlow_def)
  have p1: "poll_for_token sample_world new_TadoXApi (flow_device_code sample_flow) 3 120 =
     (Inr True, sample_api)"
    by (simp add: sample_world_def)
  have p2: "poll_for_token sample_world_two_homes new_TadoXApi (flow_device_code sample_flow) 3 120 =
     (Inr True, sample_api)"
    by (simp add: sample_world_two_homes_def sample_world_def)
  have p3: "poll_for_token sample_world_no_homes new_TadoXApi (flow_device_code sample_flow) 3 120 =
     (Inr True, sample_api)"
    by (simp add: sample_world_no_homes_def sample_world_def)
  have g1: "get_homes sample_world sample_api = (Inr [sample_home], sample_api)"
    by (simp add: sample_world_def)
  have g2: "get_homes sample_world_two_homes sample_api =
      (Inr [sample_home, sample_home2], sample_api)"
    by (simp add: sample_world_two_homes_def sample_world_def)
  have g3: "get_homes sample_world_no_homes sample_api = (Inr [], sample_api)"
    by (simp add: sample_world_no_homes_def sample_world_def)
  have wf: "\<forall>h\<in>set [sample_home, sample_home2]. h ''id'' \<noteq> None \<and> h ''name'' \<noteq> None"
    by (simp add: sample_home_def sample_home2_def)
  have two: "length [sample_home, sample_home2] > 1"
    by simp
  from auth_branches_on_homes
    [where self = sample_flow and api = new_TadoXApi and w = sample_world and ?api1.0 = sample_api
       and homes = "[sample_home]" and ?api2.0 = sample_api and k = sample_const
       and ui = Map.empty]
    fl p1 g1
  have one: "\<exists>schema ph. fst (async_step_auth sample_const sample_world sample_flow (Some Map.empty)) =
      Inr (ShowForm ''configure'' schema None ph)"
    by blast
  from auth_branches_on_homes
    [where self = sample_flow and api = new_TadoXApi and w = sample_world_two_homes
       and ?api1.0 = sample_api and homes = "[sample_home, sample_home2]" and ?api2.0 = sample_api
       and k = sample_const and ui = Map.empty]
    fl p2 g2 wf two
  have many: "\<exists>opts. fst (async_step_auth sample_const sample_world_two_homes sample_flow (Some Map.empty)) =
      Inr (ShowForm ''select_home'' (Schema_select_home opts) None None)"
    by blast
  from auth_branches_on_homes
    [where self = sample_flow and api = new_TadoXApi and w = sample_world_no_homes
       and ?api1.0 = sample_api and homes = "[]" and ?api2.0 = sample_api
       and k = sample_const and ui = Map.empty]
    fl p3 g3
  have "async_step_auth sample_const sample_world_no_homes sample_flow (Some Map.empty) =
     (Inr (ShowForm ''auth'' Schema_empty (Some [''base'' \<mapsto> ''no_homes''])
             (Some [''user_code'' \<mapsto>
                      (if truthy (flow_user_code sample_flow) then flow_user_code sample_flow
                       else VStr []),
                    ''verification_uri'' \<mapsto>
                      (if truthy (flow_verification_uri sample_flow)
                       then flow_verification_uri sample_flow else VStr [])])),
      sample_flow\<lparr>flow_api := Some sample_api, flow_homes := []\<rparr>,
      [Call_poll_for_token (flow_device_code sample_flow) 3 120, Call_get_homes])"
    by blast
  then have none: "async_step_auth sample_const sample_world_no_homes sample_flow (Some Map.empty) =
     (Inr (ShowForm ''auth'' Schema_empty (Some [''base'' \<mapsto> ''no_homes''])
             (Some [''user_code'' \<mapsto> VStr [], ''verification_uri'' \<mapsto> VStr []])),
      sample_flow\<lparr>flow_api := Some sample_api, flow_homes := []\<rparr>,
      [Call_poll_for_token (VStr ''dc'') 3 120, Call_get_homes])"
    by (simp add: codes)
  from fl p1 g1 g2 g3 one many none show ?thesis by blast
qed

subsection \<open>Starting the device authorization\<close>

lemma step_user_success:
  "start_device_auth w new_TadoXApi = (Inr auth_data, api1) \<Longrightarrow>
   auth_data ''device_code'' = Some dc \<Longrightarrow> auth_data ''user_code'' = Some uc \<Longrightarrow>
   uri = (case auth_data ''verification_uri_complete'' of
            Some v \<Rightarrow> v
          | None \<Rightarrow>
              (case auth_data ''verification_uri'' of
                 Some v \<Rightarrow> v
               | None \<Rightarrow> VStr ''https://login.tado.com/oauth2/device'')) \<Longrightarrow>
   async_step_user k w self (Some ui) =
     (Inr (ShowForm ''auth'' Schema_empty (Some Map.empty)
             (Some [''user_code'' \<mapsto> (if truthy uc then uc else VStr []),
                    ''verification_uri'' \<mapsto> (if truthy uri then uri else VStr [])])),
      self\<lparr>flow_api := Some api1, flow_device_code := dc, flow_user_code := uc,
           flow_verification_uri := uri\<rparr>,
      [Call_start_device_auth])"
  by (simp add: async_step_user_def user_try_def Let_def async_step_auth_def dict_get_def
        auth_form_def py_or_def)

lemma step_user_auth_error:
  "start_device_auth w new_TadoXApi = (Inl err, api1) \<Longrightarrow> isinstance err TadoXAuthError \<Longrightarrow>
   async_step_user k w self (Some ui) =
     (Inr (ShowForm ''user'' Schema_empty (Some [''base'' \<mapsto> ''auth_error''])
             (Some [''info'' \<mapsto>
                VStr ''Click 'Submit' to start the authentication process with Tado.''])),
      self\<lparr>flow_api := Some api1\<rparr>,
      [Call_start_device_auth, Log_error ''Failed to start device auth: %s''])"
  by (simp add: async_step_user_def user_try_def user_form_def)

lemma step_user_client_error:
  "start_device_auth w new_TadoXApi = (Inl err, api1) \<Longrightarrow> \<not> isinstance err TadoXAuthError \<Longrightarrow>
   isinstance err ClientError \<Longrightarrow>
   async_step_user k w self (Some ui) =
     (Inr (ShowForm ''user'' Schema_empty (Some [''base'' \<mapsto> ''cannot_connect''])
             (Some [''info'' \<mapsto>
                VStr ''Click 'Submit' to start the authentication process with Tado.''])),
      self\<lparr>flow_api := Some api1\<rparr>,
      [Call_start_device_auth, Log_error ''Network error: %s''])"
  by (simp add: async_step_user_def user_try_def user_form_def)

text \<open>
  C6. For a submission of the user form. When \<open>start_device_auth\<close> returns an answer
  that holds a device code and a user code, the flow keeps the client, the device code,
  the user code and the verification URI (the value under \<open>verification_uri_complete\<close>
  when the answer has that key, else the value under \<open>verification_uri\<close> when it has
  that key, else \<open>https://login.tado.com/oauth2/device\<close>) and shows the form of the
  step \<open>auth\<close>, without errors, with the user code and the verification URI as its
  placeholders. When it raises an instance of \<open>TadoXAuthError\<close>, the flow shows the form
  of the step \<open>user\<close> with the error \<open>auth_error\<close> under \<open>"base"\<close>; when it raises
  an instance of \<open>aiohttp.ClientError\<close> that is not one of \<open>TadoXAuthError\<close>, the flow
  shows the form of the step \<open>user\<close> with the error \<open>cannot_connect\<close>.
\<close>

theorem user_step_device_auth:
  "(\<forall>auth_data api1 dc uc uri.
      start_device_auth w new_TadoXApi = (Inr auth_data, api1) \<and>
      auth_data ''device_code'' = Some dc \<and> auth_data ''user_code'' = Some uc \<and>
      uri = (case auth_data ''verification_uri_complete'' of
               Some v \<Rightarrow> v
             | None \<Rightarrow>
                 (case auth_data ''verification_uri'' of
                    Some v \<Rightarrow> v
                  | None \<Rightarrow> VStr ''https://login.tado.com/oauth2/device'')) \<longrightarrow>
      async_step_user k w self (Some ui) =
        (Inr (ShowForm ''auth'' Schema_empty (Some Map.empty)
                (Some [''user_code'' \<mapsto> (if truthy uc then uc else VStr []),
                       ''verification_uri'' \<mapsto> (if truthy uri then uri else VStr [])])),
         self\<lparr>flow_api := Some api1, flow_device_code := dc, flow_user_code := uc,
              flow_verification_uri := uri\<rparr>,
         [Call_start_device_auth])) \<and>
   (\<forall>err api1. start_device_auth w new_TadoXApi = (Inl err, api1) \<and>
      isinstance err TadoXAuthError \<longrightarrow>
      async_step_user k w self (Some ui) =
        (Inr (ShowForm ''user'' Schema_empty (Some [''base'' \<mapsto> ''auth_error''])
                (Some [''info'' \<mapsto>
                   VStr ''Click 'Submit' to start the authentication process with Tado.''])),
         self\<lparr>flow_api := Some api1\<rparr>,
         [Call_start_device_auth, Log_error ''Failed to start device auth: %s''])) \<and>
   (\<forall>err api1. start_device_auth w new_TadoXApi = (Inl err, api1) \<and>
      \<not> isinstance err TadoXAuthError \<and> isinstance err ClientError \<longrightarrow>
      async_step_user k w self (Some ui) =
        (Inr (ShowForm ''user'' Schema_empty (Some [''base'' \<mapsto> ''cannot_connect''])
                (Some [''info'' \<mapsto>
                   VStr ''Click 'Submit' to start the authentication process with Tado.''])),
         self\<lparr>flow_api := Some api1\<rparr>,
         [Call_start_device_auth, Log_error ''Network error: %s'']))"
  using step_user_success [of w _ _ _ _ _ k self ui] step_user_auth_error [of w _ _ k self ui]
    step_user_client_error [of w _ _ k self ui]
  by blast

text \<open>A new flow in the sample world, in the world that refuses the authorization and in
  the world without network.\<close>

theorem user_step_device_auth_witness:
  "start_device_auth sample_world new_TadoXApi =
     (Inr [''device_code'' \<mapsto> VStr ''dc'', ''user_code'' \<mapsto> VStr ''uc'',
           ''verification_uri'' \<mapsto> VStr ''https://v''], new_TadoXApi) \<and>
   async_step_user sample_const sample_world new_TadoXConfigFlow (Some Map.empty) =
     (Inr (ShowForm ''auth'' Schema_empty (Some Map.empty)
             (Some [''user_code'' \<mapsto> VStr ''uc'', ''verification_uri'' \<mapsto> VStr ''https://v''])),
      new_TadoXConfigFlow\<lparr>flow_api := Some new_TadoXApi, flow_device_code := VStr ''dc'',
         flow_user_code := VStr ''uc'', flow_verification_uri := VStr ''https://v''\<rparr>,
      [Call_start_device_auth]) \<and>
   isinstance sample_auth_error TadoXAuthError \<and>
   async_step_user sample_const sample_world_auth_refused new_TadoXConfigFlow (Some Map.empty) =
     (Inr (ShowForm ''user'' Schema_empty (Some [''base'' \<mapsto> ''auth_error''])
             (Some [''info'' \<mapsto>
                VStr ''Click 'Submit' to start the authentication process with Tado.''])),
      new_TadoXConfigFlow\<lparr>flow_api := Some new_TadoXApi\<rparr>,
      [Call_start_device_auth, Log_error ''Failed to start device auth: %s'']) \<and>
   \<not> isinstance sample_client_error TadoXAuthError \<and> isinstance sample_client_error ClientError \<and>
   async_step_user sample_const sample_world_offline new_TadoXConfigFlow (Some Map.empty) =
     (Inr (ShowForm ''user'' Schema_empty (Some [''base'' \<mapsto> ''cannot_connect''])
             (Some [''info'' \<mapsto>
                VStr ''Click 'Submit' to start the authentication process with Tado.''])),
      new_TadoXConfigFlow\<lparr>flow_api := Some new_TadoXApi\<rparr>,
      [Call_start_device_auth, Log_error ''Network error: %s''])"
proof -
  let ?ad = "[''device_code'' \<mapsto> VStr ''dc'', ''user_code'' \<mapsto> VStr ''uc'',
              ''verification_uri'' \<mapsto> VStr ''https://v'']"
  have s1: "start_device_auth sample_world new_TadoXApi = (Inr ?ad, new_TadoXApi)"
    by (simp add: sample_world_def)
  have dc: "?ad ''device_code'' = Some (VStr ''dc'')" and uc: "?ad ''user_code'' = Some (VStr ''uc'')"
    by simp_all
  have uri: "VStr ''https://v'' =
             (case ?ad ''verification_uri_complete'' of
                Some v \<Rightarrow> v
              | None \<Rightarrow>
                  (case ?ad ''verification_uri'' of
                     Some v \<Rightarrow> v
                   | None \<Rightarrow> VStr ''https://login.tado.com/oauth2/device''))"
    by simp
  have s2: "start_device_auth sample_world_auth_refused new_TadoXApi =
      (Inl sample_auth_error, new_TadoXApi)"
    by (simp add: sample_world_auth_refused_def sample_world_def)
  have s3: "start_device_auth sample_world_offline new_TadoXApi =
      (Inl sample_client_error, new_TadoXApi)"
    by (simp add: sample_world_offline_def sample_world_def)
  have i2: "isinstance sample_auth_error TadoXAuthError"
    by (simp add: isinstance_def sample_auth_error_def)
  have i3: "\<not> isinstance sample_client_error TadoXAuthError \<and>
      isinstance sample_client_error ClientError"
    by (simp add: isinstance_def sample_client_error_def)
  from user_step_device_auth [of sample_world sample_const new_TadoXConfigFlow Map.empty]
    s1 dc uc uri
  have "async_step_user sample_const sample_world new_TadoXConfigFlow (Some Map.empty) =
     (Inr (ShowForm ''auth'' Schema_empty (Some Map.empty)
             (Some [''user_code'' \<mapsto> (if truthy (VStr ''uc'') then VStr ''uc'' else VStr []),
                    ''verification_uri'' \<mapsto>
                      (if truthy (VStr ''https://v'') then VStr ''https://v'' else VStr [])])),
      new_TadoXConfigFlow\<lparr>flow_api := Some new_TadoXApi, flow_device_code := VStr ''dc'',
         flow_user_code := VStr ''uc'', flow_verification_uri := VStr ''https://v''\<rparr>,
      [Call_start_device_auth])"
    by blast
  then have ok: "async_step_user sample_const sample_world new_TadoXConfigFlow (Some Map.empty) =
     (Inr (ShowForm ''auth'' Schema_empty (Some Map.empty)
             (Some [''user_code'' \<mapsto> VStr ''uc'', ''verification_uri'' \<mapsto> VStr ''https://v''])),
      new_TadoXConfigFlow\<lparr>flow_api := Some new_TadoXApi, flow_device_code := VStr ''dc'',
         flow_user_code := VStr ''uc'', flow_verification_uri := VStr ''https://v''\<rparr>,
      [Call_start_device_auth])"
    by simp
  from user_step_device_auth [of sample_world_auth_refused sample_const new_TadoXConfigFlow Map.empty]
    s2 i2
  have refused: "async_step_user sample_const sample_world_auth_refused new_TadoXConfigFlow
        (Some Map.empty) =
     (Inr (ShowForm ''user'' Schema_empty (Some [''base'' \<mapsto> ''auth_error''])
             (Some [''info'' \<mapsto>
                VStr ''Click 'Submit' to start the authentication process with Tado.''])),
      new_TadoXConfigFlow\<lparr>flow_api := Some new_TadoXApi\<rparr>,
      [Call_start_device_auth, Log_error ''Failed to start device auth: %s''])"
    by blast
  from user_step_device_auth [of sample_world_offline sample_const new_TadoXConfigFlow Map.empty]
    s3 i3
  have offline: "async_step_user sample_const sample_world_offline new_TadoXConfigFlow
        (Some Map.empty) =
     (Inr (ShowForm ''user'' Schema_empty (Some [''base'' \<mapsto> ''cannot_connect''])
             (Some [''info'' \<mapsto>
                VStr ''Click 'Submit' to start the authentication process with Tado.''])),
      new_TadoXConfigFlow\<lparr>flow_api := Some new_TadoXApi\<rparr>,
      [Call_start_device_auth, Log_error ''Network error: %s''])"
    by blast
  from s1 ok i2 refused i3 offline show ?thesis by blast
qed

subsection \<open>Creating the entry\<close>

lemma has_unique_id_iff:
  "has_unique_id entries uid \<longleftrightarrow> (\<exists>e\<in>set entries. unique_id e = Some uid)"
  by (induction entries) auto

lemma create_entry_abort_iff:
  "flow_api self = Some api \<Longrightarrow> home ''id'' = Some hid \<Longrightarrow>
   (create_entry k w self (Some home) scan geo mn mx = Inr (AbortFlow ''already_configured'')) =
   (\<exists>e\<in>set (async_current_entries w). unique_id e = Some (''tado_x_'' @ py_str w hid))"
  by (auto simp: create_entry_def Let_def has_unique_id_iff split: option.splits)

lemma create_entry_creates:
  "flow_api self = Some api \<Longrightarrow> home ''id'' = Some hid \<Longrightarrow> home ''name'' = Some hname \<Longrightarrow>
   \<not> (\<exists>e\<in>set (async_current_entries w). unique_id e = Some (''tado_x_'' @ py_str w hid)) \<Longrightarrow>
   create_entry k w self (Some home) scan geo mn mx =
     Inr (CreateEntry hname
            (Map.empty
               (CONF_HOME_ID k \<mapsto> hid,
                CONF_HOME_NAME k \<mapsto> hname,
                CONF_ACCESS_TOKEN k \<mapsto> access_token api,
                CONF_REFRESH_TOKEN k \<mapsto> refresh_token api,
                CONF_TOKEN_EXPIRY k \<mapsto> expiry_value w api,
                CONF_SCAN_INTERVAL k \<mapsto> scan,
                CONF_GEOFENCING_ENABLED k \<mapsto> geo,
                CONF_MIN_TEMP k \<mapsto> mn,
                CONF_MAX_TEMP k \<mapsto> mx)))"
  by (simp add: create_entry_def Let_def has_unique_id_iff)

lemma auth_try_unique_id:
  "auth_try k w self api = (x, self', evs) \<Longrightarrow> flow_unique_id self' = flow_unique_id self"
  by (auto simp: auth_try_def Let_def async_step_select_home_def
      split: prod.splits sum.splits if_splits option.splits)

lemma step_auth_unique_id:
  "flow_unique_id (fst (snd (async_step_auth k w self ui))) = flow_unique_id self"
  by (auto simp: async_step_auth_def split: option.splits prod.splits try_exit.splits
        dest: auth_try_unique_id)

lemma reauth_auth_try_unique_id:
  "reauth_auth_try k w self api = (x, self', evs) \<Longrightarrow> flow_unique_id self' = flow_unique_id self"
  by (auto simp: reauth_auth_try_def Let_def split: prod.splits sum.splits if_splits)

lemma step_reauth_auth_unique_id:
  "flow_unique_id (fst (snd (async_step_reauth_auth k w self ui))) = flow_unique_id self"
  by (auto simp: async_step_reauth_auth_def split: option.splits prod.splits try_exit.splits
        dest: reauth_auth_try_unique_id)

lemma step_auth_unique_id_rel:
  "async_step_auth k w self ui = (r, self', evs) \<Longrightarrow> flow_unique_id self' = flow_unique_id self"
  using step_auth_unique_id [of k w self ui] by simp

lemma user_try_unique_id:
  "user_try k w self api = (x, self', evs) \<Longrightarrow> flow_unique_id self' = flow_unique_id self"
  by (auto simp: user_try_def Let_def split: prod.splits sum.splits option.splits
        dest!: step_auth_unique_id_rel)

lemma step_user_unique_id:
  "flow_unique_id (fst (snd (async_step_user k w self ui))) = flow_unique_id self"
  by (auto simp: async_step_user_def split: option.splits prod.splits try_exit.splits
        dest: user_try_unique_id)

lemma step_reauth_auth_unique_id_rel:
  "async_step_reauth_auth k w self ui = (r, self', evs) \<Longrightarrow>
   flow_unique_id self' = flow_unique_id self"
  using step_reauth_auth_unique_id [of k w self ui] by simp

lemma reauth_confirm_try_unique_id:
  "reauth_confirm_try k w self api = (x, self', evs) \<Longrightarrow> flow_unique_id self' = flow_unique_id self"
  by (auto simp: reauth_confirm_try_def Let_def split: prod.splits sum.splits option.splits
        dest!: step_reauth_auth_unique_id_rel)

lemma step_reauth_confirm_unique_id:
  "flow_unique_id (fst (snd (async_step_reauth_confirm k w self ui))) = flow_unique_id self"
  by (auto simp: async_step_reauth_confirm_def split: option.splits prod.splits try_exit.splits
        dest: reauth_confirm_try_unique_id)

lemma step_select_home_unique_id:
  "flow_unique_id (snd (async_step_select_home k w self ui)) = flow_unique_id self"
  by (auto simp: async_step_select_home_def Let_def split: option.splits sum.splits)

lemma run_step_unique_id:
  "flow_unique_id (fst (snd (run_step k w self st))) = flow_unique_id self"
  by (cases st)
     (simp_all add: step_user_unique_id step_auth_unique_id step_select_home_unique_id
        step_reauth_confirm_unique_id step_reauth_auth_unique_id async_step_reauth_def
        split: prod.splits,
      metis snd_conv step_select_home_unique_id)

lemma run_steps_unique_id:
  "flow_unique_id (run_steps k self steps) = flow_unique_id self"
  by (induction steps arbitrary: self) (auto simp: run_step_unique_id)

text \<open>
  C8. \<open>_create_entry\<close> aborts with \<open>already_configured\<close> only if some current entry
  has the unique id \<open>"tado_x_"\<close> followed by the home's id; with a live API client and a
  home that has an id, it does so if and only if there is such an entry. No step of the
  flow assigns the flow's unique id: after any sequence of steps on a new flow it is still
  \<open>None\<close>, and so is the unique id of an entry the host creates for that flow. Hence,
  with a live API client, a home with an id and a name, and current entries without unique
  ids (as this flow's entries are), \<open>_create_entry\<close> always asks for a new entry,
  whatever home ids the current entries have in their data.
\<close>

theorem create_entry_unique_id_check:
  "(create_entry k w self (Some home) scan geo mn mx = Inr (AbortFlow ''already_configured'') \<longrightarrow>
      (\<exists>hid. home ''id'' = Some hid \<and>
         (\<exists>e\<in>set (async_current_entries w). unique_id e = Some (''tado_x_'' @ py_str w hid)))) \<and>
   (\<forall>api hid. flow_api self = Some api \<and> home ''id'' = Some hid \<longrightarrow>
      (create_entry k w self (Some home) scan geo mn mx = Inr (AbortFlow ''already_configured'')) =
      (\<exists>e\<in>set (async_current_entries w). unique_id e = Some (''tado_x_'' @ py_str w hid))) \<and>
   (\<forall>api hid hname. flow_api self = Some api \<and> home ''id'' = Some hid \<and>
      home ''name'' = Some hname \<and>
      \<not> (\<exists>e\<in>set (async_current_entries w). unique_id e = Some (''tado_x_'' @ py_str w hid)) \<longrightarrow>
      create_entry k w self (Some home) scan geo mn mx =
        Inr (CreateEntry hname
               (Map.empty
                  (CONF_HOME_ID k \<mapsto> hid,
                   CONF_HOME_NAME k \<mapsto> hname,
                   CONF_ACCESS_TOKEN k \<mapsto> access_token api,
                   CONF_REFRESH_TOKEN k \<mapsto> refresh_token api,
                   CONF_TOKEN_EXPIRY k \<mapsto> expiry_value w api,
                   CONF_SCAN_INTERVAL k \<mapsto> scan,
                   CONF_GEOFENCING_ENABLED k \<mapsto> geo,
                   CONF_MIN_TEMP k \<mapsto> mn,
                   CONF_MAX_TEMP k \<mapsto> mx)))) \<and>
   (\<forall>steps. flow_unique_id (run_steps k new_TadoXConfigFlow steps) = None) \<and>
   (\<forall>steps eid r e. host_new_entry eid (run_steps k new_TadoXConfigFlow steps) r = Some e \<longrightarrow>
      unique_id e = None) \<and>
   (\<forall>api hid hname. flow_api self = Some api \<and> home ''id'' = Some hid \<and>
      home ''name'' = Some hname \<and> (\<forall>e\<in>set (async_current_entries w). unique_id e = None) \<longrightarrow>
      (\<exists>d. create_entry k w self (Some home) scan geo mn mx = Inr (CreateEntry hname d)))"
proof (intro conjI allI impI)
  assume "create_entry k w self (Some home) scan geo mn mx = Inr (AbortFlow ''already_configured'')"
  then show "\<exists>hid. home ''id'' = Some hid \<and>
         (\<exists>e\<in>set (async_current_entries w). unique_id e = Some (''tado_x_'' @ py_str w hid))"
    by (auto simp: create_entry_def Let_def has_unique_id_iff split: option.splits if_splits)
next
  fix api hid
  assume "flow_api self = Some api \<and> home ''id'' = Some hid"
  then show "(create_entry k w self (Some home) scan geo mn mx = Inr (AbortFlow ''already_configured'')) =
      (\<exists>e\<in>set (async_current_entries w). unique_id e = Some (''tado_x_'' @ py_str w hid))"
    by (simp add: create_entry_abort_iff)
next
  fix api hid hname
  assume "flow_api self = Some api \<and> home ''id'' = Some hid \<and>
      home ''name'' = Some hname \<and>
      \<not> (\<exists>e\<in>set (async_current_entries w). unique_id e = Some (''tado_x_'' @ py_str w hid))"
  then show "create_entry k w self (Some home) scan geo mn mx =
        Inr (CreateEntry hname
               (Map.empty
                  (CONF_HOME_ID k \<mapsto> hid,
                   CONF_HOME_NAME k \<mapsto> hname,
                   CONF_ACCESS_TOKEN k \<mapsto> access_token api,
                   CONF_REFRESH_TOKEN k \<mapsto> refresh_token api,
                   CONF_TOKEN_EXPIRY k \<mapsto> expiry_value w api,
                   CONF_SCAN_INTERVAL k \<mapsto> scan,
                   CONF_GEOFENCING_ENABLED k \<mapsto> geo,
                   CONF_MIN_TEMP k \<mapsto> mn,
                   CONF_MAX_TEMP k \<mapsto> mx)))"
    using create_entry_creates [of self api home hid hname w k scan geo mn mx] by blast
next
  fix steps
  show "flow_unique_id (run_steps k new_TadoXConfigFlow steps) = None"
    by (simp add: run_steps_unique_id new_TadoXConfigFlow_def)
next
  fix steps eid r e
  assume "host_new_entry eid (run_steps k new_TadoXConfigFlow steps) r = Some e"
  then show "unique_id e = None"
    by (auto simp: host_new_entry_def run_steps_unique_id new_TadoXConfigFlow_def
        split: ConfigFlowResult.splits)
next
  fix api hid hname
  assume h: "flow_api self = Some api \<and> home ''id'' = Some hid \<and>
      home ''name'' = Some hname \<and> (\<forall>e\<in>set (async_current_entries w). unique_id e = None)"
  then have "\<not> (\<exists>e\<in>set (async_current_entries w). unique_id e = Some (''tado_x_'' @ py_str w hid))"
    by auto
  with h create_entry_creates [of self api home hid hname w k scan geo mn mx]
  show "\<exists>d. create_entry k w self (Some home) scan geo mn mx = Inr (CreateEntry hname d)"
    by blast
qed

text \<open>
  In the sample world the only current entry is for home 7 and has no unique id: a second
  entry for home 7 is asked for. In the other world an entry has the unique id
  \<open>tado_x_7\<close>: the flow aborts.
\<close>

theorem create_entry_unique_id_check_witness:
  "flow_api sample_flow = Some new_TadoXApi \<and> sample_home ''id'' = Some (VInt 7) \<and>
   sample_home ''name'' = Some (VStr ''Home'') \<and>
   entry_data sample_entry (CONF_HOME_ID sample_const) = Some (VInt 7) \<and>
   sample_entry \<in> set (async_current_entries sample_world) \<and>
   map unique_id (async_current_entries sample_world) = [None] \<and>
   (\<exists>d. create_entry sample_const sample_world sample_flow (Some sample_home)
           (VInt 30) (VBool False) (VFloat 5) (VFloat 30) = Inr (CreateEntry (VStr ''Home'') d)) \<and>
   (\<exists>e\<in>set (async_current_entries sample_world_claimed).
       unique_id e = Some (''tado_x_'' @ py_str sample_world_claimed (VInt 7))) \<and>
   create_entry sample_const sample_world_claimed sample_flow (Some sample_home)
     (VInt 30) (VBool False) (VFloat 5) (VFloat 30) = Inr (AbortFlow ''already_configured'')"
proof -
  have fl: "flow_api sample_flow = Some new_TadoXApi"
    by (simp add: sample_flow_def)
  have hid: "sample_home ''id'' = Some (VInt 7)" and hname: "sample_home ''name'' = Some (VStr ''Home'')"
    by (simp_all add: sample_home_def)
  have same: "entry_data sample_entry (CONF_HOME_ID sample_const) = Some (VInt 7)"
    by (simp add: sample_entry_def sample_const_def)
  have mem: "sample_entry \<in> set (async_current_entries sample_world)"
    by (simp add: sample_world_def)
  have nouid: "\<forall>e\<in>set (async_current_entries sample_world). unique_id e = None"
    by (simp add: sample_world_def sample_entry_def)
  have claimed: "\<exists>e\<in>set (async_current_entries sample_world_claimed).
       unique_id e = Some (''tado_x_'' @ py_str sample_world_claimed (VInt 7))"
    by (simp add: sample_world_claimed_def sample_world_def sample_entry_def)
  from create_entry_unique_id_check
    [of sample_const sample_world sample_flow sample_home "VInt 30" "VBool False" "VFloat 5" "VFloat 30"]
    fl hid hname nouid
  have made: "\<exists>d. create_entry sample_const sample_world sample_flow (Some sample_home)
           (VInt 30) (VBool False) (VFloat 5) (VFloat 30) = Inr (CreateEntry (VStr ''Home'') d)"
    by blast
  from create_entry_unique_id_check
    [of sample_const sample_world_claimed sample_flow sample_home "VInt 30" "VBool False"
        "VFloat 5" "VFloat 30"]
    fl hid claimed
  have aborted: "create_entry sample_const sample_world_claimed sample_flow (Some sample_home)
     (VInt 30) (VBool False) (VFloat 5) (VFloat 30) = Inr (AbortFlow ''already_configured'')"
    by blast
  have uids: "map unique_id (async_current_entries sample_world) = [None]"
    by (simp add: sample_world_def sample_entry_def)
  from fl hid hname same mem uids made claimed aborted show ?thesis by blast
qed

end
